theory Spec2Isabelle
  imports Complex_Main
begin

section \<open>Values and frames\<close>

text \<open>
  The pipeline (\<^verbatim>\<open>climate_disasters_pipeline.py\<close>) is a sequence of pandas calls on
  the five frames that \<^verbatim>\<open>pd.read_csv\<close> delivers. The model starts at those frames:
  file access is outside it.

  A Python float that is not NaN is a \<open>pyfloat\<close>: a finite number, taken as an exact
  real, or an infinity (\<^verbatim>\<open>read_csv\<close> reads the field \<^verbatim>\<open>inf\<close> as one). NaN, the
  missing-value marker, is \<open>None\<close> of \<open>pyfloat option\<close>, or the cell \<open>NaN\<close>.

  A cell of a frame is blank (\<open>NaN\<close>), a float (\<open>Num\<close>) or a Python \<^verbatim>\<open>str\<close>
  (\<open>Str\<close>). \<^verbatim>\<open>read_csv\<close> reads a column as floats when every field is a number or
  blank; otherwise every field that is not blank is a \<^verbatim>\<open>str\<close>, whatever its text.
  The functions below are defined on every list of cells.
\<close>

datatype pyfloat = Fin real | PInf | NInf

datatype cell = NaN | Num pyfloat | Str string

datatype py_error = TypeError | ValueError | OverflowError

fun is_Str :: "cell \<Rightarrow> bool" where
  "is_Str (Str s) = True"
| "is_Str c = False"

text \<open>Running a step that may raise over a list: the first error is the one raised.\<close>

fun mapM_err :: "('a \<Rightarrow> py_error + 'b) \<Rightarrow> 'a list \<Rightarrow> py_error + 'b list" where
  "mapM_err f [] = Inr []"
| "mapM_err f (x # xs) =
     (case f x of
        Inl e \<Rightarrow> Inl e
      | Inr y \<Rightarrow> (case mapM_err f xs of Inl e \<Rightarrow> Inl e | Inr ys \<Rightarrow> Inr (y # ys)))"

subsection \<open>What the libraries parse\<close>

text \<open>
  How pandas and Python read text is a parameter of the model, a \<open>library\<close>:
  \<^item> \<open>parse_dates\<close> is \<^verbatim>\<open>pd.to_datetime(col, errors="coerce")\<close> on a whole column.
    It raises (on dates with mixed UTC offsets, a ValueError), or it fixes how each value
    of this column is read, from the column itself (the format is inferred from the
    first value): a date, or \<open>None\<close> for NaT.
  \<^item> \<open>parse_number\<close> is what \<^verbatim>\<open>pd.to_numeric(col, errors="coerce")\<close> makes of a
    \<^verbatim>\<open>str\<close>: a float, or \<open>None\<close> for NaN.
  \<^item> \<open>parse_int\<close> is Python's \<^verbatim>\<open>int(s)\<close> on a \<^verbatim>\<open>str\<close>, \<open>None\<close> when it raises
    ValueError.
\<close>

record timestamp =
  ts_year :: int
  ts_month :: nat
  ts_day :: nat

record library =
  parse_dates :: "cell list \<Rightarrow> py_error + (cell \<Rightarrow> timestamp option)"
  parse_number :: "string \<Rightarrow> pyfloat option"
  parse_int :: "string \<Rightarrow> int option"

text \<open>A blank cell is NaT whatever the column.\<close>

definition to_datetime :: "library \<Rightarrow> cell list \<Rightarrow> py_error + (cell \<Rightarrow> timestamp option)" where
  "to_datetime L col =
     (case parse_dates L col of
        Inl e \<Rightarrow> Inl e
      | Inr f \<Rightarrow> Inr (\<lambda>c. case c of NaN \<Rightarrow> None | _ \<Rightarrow> f c))"

text \<open>\<^verbatim>\<open>.dt.year\<close>: the year as a float, NaN on NaT.\<close>

definition dt_year :: "timestamp option \<Rightarrow> real option" where
  "dt_year d = map_option (\<lambda>t. real_of_int (ts_year t)) d"

definition float_cell :: "real option \<Rightarrow> cell" where
  "float_cell v = (case v of None \<Rightarrow> NaN | Some x \<Rightarrow> Num (Fin x))"

subsection \<open>Casting to integers\<close>

definition in_int64 :: "int \<Rightarrow> bool" where
  "in_int64 i = (- (2 ^ 63) \<le> i \<and> i < 2 ^ 63)"

definition trunc :: "real \<Rightarrow> int" where
  "trunc x = (if 0 \<le> x then \<lfloor>x\<rfloor> else \<lceil>x\<rceil>)"

text \<open>
  \<^verbatim>\<open>.astype(int)\<close> on a column of finite floats: truncation towards zero into a
  64-bit integer; a value out of range becomes the least 64-bit integer (what the
  conversion instruction of x86-64 gives; pandas does not check).
\<close>

definition astype_int :: "real \<Rightarrow> int" where
  "astype_int x = (if in_int64 (trunc x) then trunc x else - (2 ^ 63))"

text \<open>
  \<^verbatim>\<open>.astype(int)\<close> on one cell of the year column (line 91). On a float column pandas
  refuses a value that is not finite (ValueError). On an object column, one that holds a
  \<^verbatim>\<open>str\<close> somewhere, every cell goes through Python's \<^verbatim>\<open>int\<close>: a \<^verbatim>\<open>str\<close> is
  parsed, a float truncated, and what does not fit 64 bits, an infinity included, raises
  OverflowError.
\<close>

fun year_cast :: "library \<Rightarrow> bool \<Rightarrow> cell \<Rightarrow> py_error + int" where
  "year_cast L object NaN = Inl ValueError"
| "year_cast L object (Str s) =
     (case parse_int L s of
        None \<Rightarrow> Inl ValueError
      | Some i \<Rightarrow> if in_int64 i then Inr i else Inl OverflowError)"
| "year_cast L object (Num (Fin x)) =
     (if object then (if in_int64 (trunc x) then Inr (trunc x) else Inl OverflowError)
      else Inr (astype_int x))"
| "year_cast L object (Num v) = (if object then Inl OverflowError else Inl ValueError)"

subsection \<open>The three temperature sources\<close>

datatype temp_source = Gia_Bach_Nguyen | Berkeley_Earth | Josep_Ferrer

record gia_row =
  Year :: cell
  Average_Fahrenheit_Temperature :: cell

record berk_row =
  dt :: cell
  LandAndOceanAverageTemperature :: cell

record josep_row =
  EventDate :: cell
  TemperatureFahrenheit :: cell

text \<open>The common schema \<^verbatim>\<open>["year", "TempF", "source"]\<close> before cleaning.\<close>

record temp_raw =
  raw_year :: cell
  raw_TempF :: cell
  raw_source :: temp_source

text \<open>... and in the table that is returned: the year an integer, the temperature a float.\<close>

record temp_row =
  year :: int
  TempF :: pyfloat
  source :: temp_source

text \<open>Lines 55-62: Gia's two columns are renamed, nothing is converted.\<close>

definition temps_gia_std :: "gia_row list \<Rightarrow> temp_raw list" where
  "temps_gia_std gia =
     map (\<lambda>r. \<lparr>raw_year = Year r, raw_TempF = Average_Fahrenheit_Temperature r,
               raw_source = Gia_Bach_Nguyen\<rparr>) gia"

text \<open>
  Line 68, \<^verbatim>\<open>col * 9 / 5 + 32\<close>, on a float: an infinity stays, NaN stays NaN. On a
  \<^verbatim>\<open>str\<close> the product with 9 is a repetition, and its division by 5 raises TypeError.
\<close>

fun celsius_to_F :: "cell \<Rightarrow> cell" where
  "celsius_to_F (Num (Fin c)) = Num (Fin (c * 9 / 5 + 32))"
| "celsius_to_F (Num v) = Num v"
| "celsius_to_F c = NaN"

definition berk_raw :: "(cell \<Rightarrow> timestamp option) \<Rightarrow> berk_row \<Rightarrow> temp_raw" where
  "berk_raw d r = \<lparr>raw_year = float_cell (dt_year (d (dt r))),
                   raw_TempF = celsius_to_F (LandAndOceanAverageTemperature r),
                   raw_source = Berkeley_Earth\<rparr>"

text \<open>Lines 65-69: the dates first (line 66), then the conversion (line 68).\<close>

definition temps_berk_std :: "library \<Rightarrow> berk_row list \<Rightarrow> py_error + temp_raw list" where
  "temps_berk_std L berk =
     (case to_datetime L (map dt berk) of
        Inl e \<Rightarrow> Inl e
      | Inr d \<Rightarrow>
          if list_ex is_Str (map LandAndOceanAverageTemperature berk) then Inl TypeError
          else Inr (map (berk_raw d) berk))"

text \<open>Lines 75-77, \<^verbatim>\<open>pd.to_numeric(col, errors="coerce")\<close>: a float is kept.\<close>

fun to_numeric :: "library \<Rightarrow> cell \<Rightarrow> cell" where
  "to_numeric L (Str s) = (case parse_number L s of None \<Rightarrow> NaN | Some x \<Rightarrow> Num x)"
| "to_numeric L c = c"

definition josep_raw :: "library \<Rightarrow> (cell \<Rightarrow> timestamp option) \<Rightarrow> josep_row \<Rightarrow> temp_raw" where
  "josep_raw L d r = \<lparr>raw_year = float_cell (dt_year (d (EventDate r))),
                      raw_TempF = to_numeric L (TemperatureFahrenheit r),
                      raw_source = Josep_Ferrer\<rparr>"

text \<open>Lines 72-78.\<close>

definition temps_josep_std :: "library \<Rightarrow> josep_row list \<Rightarrow> py_error + temp_raw list" where
  "temps_josep_std L josep =
     (case to_datetime L (map EventDate josep) of
        Inl e \<Rightarrow> Inl e
      | Inr d \<Rightarrow> Inr (map (josep_raw L d) josep))"

text \<open>Line 90, \<^verbatim>\<open>dropna(subset=["year", "TempF"])\<close>: a \<^verbatim>\<open>str\<close> is not missing.\<close>

definition dropna_temps :: "temp_raw list \<Rightarrow> temp_raw list" where
  "dropna_temps rows = filter (\<lambda>r. raw_year r \<noteq> NaN \<and> raw_TempF r \<noteq> NaN) rows"

text \<open>Line 91 on one row; the temperature is still a cell.\<close>

definition cast_row :: "library \<Rightarrow> bool \<Rightarrow> temp_raw \<Rightarrow> py_error + (int \<times> temp_raw)" where
  "cast_row L object r =
     (case year_cast L object (raw_year r) of Inl e \<Rightarrow> Inl e | Inr y \<Rightarrow> Inr (y, r))"

fun float_row :: "int \<times> temp_raw \<Rightarrow> temp_row option" where
  "float_row (y, r) =
     (case raw_TempF r of
        Num t \<Rightarrow> Some \<lparr>year = y, TempF = t, source = raw_source r\<rparr>
      | _ \<Rightarrow> None)"

subsection \<open>Grouping by year\<close>

text \<open>
  \<^verbatim>\<open>groupby("year")\<close> has one group for each distinct key, the groups in ascending
  key order, each holding its rows in their original order.
\<close>

definition group_keys :: "int list \<Rightarrow> int list" where
  "group_keys ks = sort (remdups ks)"

text \<open>
  The sum of floats: an infinity absorbs what is finite, and two infinities of opposite
  signs give NaN. The mean is the sum over the number of values.
\<close>

fun fadd :: "pyfloat option \<Rightarrow> pyfloat \<Rightarrow> pyfloat option" where
  "fadd None x = None"
| "fadd (Some (Fin a)) (Fin b) = Some (Fin (a + b))"
| "fadd (Some (Fin a)) x = Some x"
| "fadd (Some PInf) NInf = None"
| "fadd (Some NInf) PInf = None"
| "fadd (Some a) x = Some a"

definition fsum :: "pyfloat list \<Rightarrow> pyfloat option" where
  "fsum xs = fold (\<lambda>x acc. fadd acc x) xs (Some (Fin 0))"

definition mean :: "pyfloat list \<Rightarrow> pyfloat option" where
  "mean xs =
     (case fsum xs of
        Some (Fin s) \<Rightarrow> Some (Fin (s / real (length xs)))
      | v \<Rightarrow> v)"

text \<open>Lines 93-95, \<^verbatim>\<open>groupby("year", as_index=False)["TempF"].mean()\<close>, on floats.\<close>

definition groupby_mean :: "temp_row list \<Rightarrow> (int \<times> pyfloat option) list" where
  "groupby_mean rows =
     map (\<lambda>y. (y, mean (map TempF (filter (\<lambda>r. year r = y) rows))))
         (group_keys (map year rows))"

text \<open>
  \<^verbatim>\<open>.sort_values("year")\<close> on a table keyed by year in its first column. pandas does
  not fix the order of rows with equal keys; the model keeps them in their order.
\<close>

definition sort_values_year :: "(int \<times> 'a) list \<Rightarrow> (int \<times> 'a) list" where
  "sort_values_year rows = sort_key fst rows"

text \<open>
  The loader, in the order of the source. The year column of the concatenated table is
  an object column when it holds a \<^verbatim>\<open>str\<close>, which only Gia's \<^verbatim>\<open>Year\<close> can bring
  in. The mean of a temperature column that holds a \<^verbatim>\<open>str\<close> among the rows that are
  left raises TypeError (lines 93-95).
\<close>

definition load_temperature_data ::
  "library \<Rightarrow> gia_row list \<Rightarrow> berk_row list \<Rightarrow> josep_row list
     \<Rightarrow> py_error + (temp_row list \<times> (int \<times> pyfloat option) list)" where
  "load_temperature_data L gia berk josep =
     (case temps_berk_std L berk of
        Inl e \<Rightarrow> Inl e
      | Inr temps_berk \<Rightarrow>
     (case temps_josep_std L josep of
        Inl e \<Rightarrow> Inl e
      | Inr temps_josep \<Rightarrow>
          let raw = temps_gia_std gia @ temps_berk @ temps_josep;
              object = list_ex is_Str (map raw_year raw);
              kept = dropna_temps raw
          in (case mapM_err (cast_row L object) kept of
                Inl e \<Rightarrow> Inl e
              | Inr casted \<Rightarrow>
                  if list_ex is_Str (map raw_TempF kept) then Inl TypeError
                  else
                    let temps_all = List.map_filter float_row casted;
                        temps_annual = sort_values_year (groupby_mean temps_all)
                    in Inr (temps_all, temps_annual))))"

subsection \<open>The two disaster sources\<close>

text \<open>
  Of Baris' frame only the date column and \<^verbatim>\<open>Var5\<close> (renamed to
  \<^verbatim>\<open>disaster_type\<close>) reach the common schema (line 133). The category columns
  hold text or are blank.
\<close>

datatype disaster_source = Baris_Dincer | Shreyansh_Dangi

record baris_row =
  b_EventDate :: cell
  Var5 :: "string option"

record shrey_row =
  Date :: cell
  DisasterType :: "string option"

record event_raw =
  raw_event_date :: "timestamp option"
  raw_d_year :: "real option"
  raw_disaster_type :: "string option"
  raw_d_source :: disaster_source

record event_row =
  event_date :: "timestamp option"
  d_year :: int
  disaster_type :: string
  d_source :: disaster_source

definition baris_raw :: "(cell \<Rightarrow> timestamp option) \<Rightarrow> baris_row \<Rightarrow> event_raw" where
  "baris_raw d r = \<lparr>raw_event_date = d (b_EventDate r), raw_d_year = dt_year (d (b_EventDate r)),
                    raw_disaster_type = Var5 r, raw_d_source = Baris_Dincer\<rparr>"

definition shrey_raw :: "(cell \<Rightarrow> timestamp option) \<Rightarrow> shrey_row \<Rightarrow> event_raw" where
  "shrey_raw d r = \<lparr>raw_event_date = d (Date r), raw_d_year = dt_year (d (Date r)),
                    raw_disaster_type = DisasterType r, raw_d_source = Shreyansh_Dangi\<rparr>"

text \<open>Lines 119-133 and 136-142.\<close>

definition dis_bar_std :: "library \<Rightarrow> baris_row list \<Rightarrow> py_error + event_raw list" where
  "dis_bar_std L baris =
     (case to_datetime L (map b_EventDate baris) of
        Inl e \<Rightarrow> Inl e
      | Inr d \<Rightarrow> Inr (map (baris_raw d) baris))"

definition dis_shrey_std :: "library \<Rightarrow> shrey_row list \<Rightarrow> py_error + event_raw list" where
  "dis_shrey_std L shrey =
     (case to_datetime L (map Date shrey) of
        Inl e \<Rightarrow> Inl e
      | Inr d \<Rightarrow> Inr (map (shrey_raw d) shrey))"

text \<open>
  Lines 147-148. The year column holds the years of dates only: a float column of
  finite values.
\<close>

fun clean_event :: "event_raw \<Rightarrow> event_row option" where
  "clean_event r =
     (case (raw_d_year r, raw_disaster_type r) of
        (Some y, Some t) \<Rightarrow>
          Some \<lparr>event_date = raw_event_date r, d_year = astype_int y, disaster_type = t,
                d_source = raw_d_source r\<rparr>
      | _ \<Rightarrow> None)"

definition clean_events :: "event_raw list \<Rightarrow> event_row list" where
  "clean_events rows = List.map_filter clean_event rows"

text \<open>Lines 150-153, \<^verbatim>\<open>groupby("year", as_index=False).size()\<close>.\<close>

definition groupby_size :: "event_row list \<Rightarrow> (int \<times> nat) list" where
  "groupby_size rows =
     map (\<lambda>y. (y, length (filter (\<lambda>r. d_year r = y) rows)))
         (group_keys (map d_year rows))"

definition load_disaster_data ::
  "library \<Rightarrow> baris_row list \<Rightarrow> shrey_row list
     \<Rightarrow> py_error + (event_row list \<times> (int \<times> nat) list)" where
  "load_disaster_data L baris shrey =
     (case dis_bar_std L baris of
        Inl e \<Rightarrow> Inl e
      | Inr dis_bar \<Rightarrow>
     (case dis_shrey_std L shrey of
        Inl e \<Rightarrow> Inl e
      | Inr dis_shrey \<Rightarrow>
          let disasters_all = clean_events (dis_bar @ dis_shrey);
              disasters_per_year = sort_values_year (groupby_size disasters_all)
          in Inr (disasters_all, disasters_per_year)))"

section \<open>Merged dataset and helpers\<close>

text \<open>
  A row of a merged table. Its temperature is \<open>None\<close> when the year has no temperature
  row; otherwise it is the value of that row, of any type \<open>'a\<close> (in the pipeline a
  mean, which may itself be NaN). The count column may hold NaN, so it is a float column.
\<close>

record 'a merged_row =
  m_year :: int
  m_TempF :: "'a option"
  m_disaster_count :: "real option"

text \<open>
  \<^verbatim>\<open>pd.merge(left, right, on="year", how="outer")\<close>: every left row is paired with
  each right row of the same year, or with missing values when there is none; the right
  rows whose year no left row has follow, with a missing temperature.
\<close>

definition pd_merge_outer :: "(int \<times> 'a) list \<Rightarrow> (int \<times> nat) list \<Rightarrow> 'a merged_row list" where
  "pd_merge_outer left right =
     concat (map (\<lambda>(y, t).
        let ms = map snd (filter (\<lambda>(y', c). y' = y) right)
        in if ms = [] then [\<lparr>m_year = y, m_TempF = Some t, m_disaster_count = None\<rparr>]
           else map (\<lambda>c. \<lparr>m_year = y, m_TempF = Some t, m_disaster_count = Some (real c)\<rparr>) ms)
        left)
     @ map (\<lambda>(y, c). \<lparr>m_year = y, m_TempF = None, m_disaster_count = Some (real c)\<rparr>)
         (filter (\<lambda>(y, c). y \<notin> fst ` set left) right)"

text \<open>Lines 179-181: the join, then \<^verbatim>\<open>.sort_values("year")\<close>.\<close>

definition merge_annual :: "(int \<times> 'a) list \<Rightarrow> (int \<times> nat) list \<Rightarrow> 'a merged_row list" where
  "merge_annual temps_annual disasters_per_year =
     sort_key m_year (pd_merge_outer temps_annual disasters_per_year)"

definition build_merged_dataset ::
  "library \<Rightarrow> gia_row list \<Rightarrow> berk_row list \<Rightarrow> josep_row list \<Rightarrow> baris_row list
     \<Rightarrow> shrey_row list
     \<Rightarrow> py_error + ((int \<times> pyfloat option) list \<times> (int \<times> nat) list
                      \<times> pyfloat option merged_row list)" where
  "build_merged_dataset L gia berk josep baris shrey =
     (case load_temperature_data L gia berk josep of
        Inl e \<Rightarrow> Inl e
      | Inr (temps_all, temps_annual) \<Rightarrow>
     (case load_disaster_data L baris shrey of
        Inl e \<Rightarrow> Inl e
      | Inr (disasters_all, disasters_per_year) \<Rightarrow>
          Inr (temps_annual, disasters_per_year,
               merge_annual temps_annual disasters_per_year)))"

subsection \<open>Summary statistics\<close>

text \<open>
  The reductions of a float Series skip NaN (\<^verbatim>\<open>skipna=True\<close>), the way pandas'
  \<^verbatim>\<open>nanops\<close> computes them: \<open>count\<close> counts the entries that are not NaN; the sum
  replaces NaN by 0 and adds everything up (so the sum of no value is 0); the mean is that
  sum over the count, NaN when the count is 0; the variance adds the squared distances to
  the mean, 0 at the NaN positions, and divides by the count less \<open>ddof = 1\<close>, NaN when
  the count is at most 1; minimum and maximum run over the entries, NaN when there is
  none; the median sorts the entries that are not NaN and takes the middle one, or the
  mean of the two middle ones.
\<close>

text \<open>The entries that are not NaN, in their order.\<close>

definition dropna :: "real option list \<Rightarrow> real list" where
  "dropna dc = List.map_filter id dc"

definition fillna :: "real \<Rightarrow> real option \<Rightarrow> real" where
  "fillna d v = (case v of None \<Rightarrow> d | Some x \<Rightarrow> x)"

definition count :: "real option list \<Rightarrow> nat" where
  "count dc = length (filter (\<lambda>v. v \<noteq> None) dc)"

definition nansum :: "real option list \<Rightarrow> real" where
  "nansum dc = sum_list (map (fillna 0) dc)"

definition nanmean :: "real option list \<Rightarrow> real option" where
  "nanmean dc = (if count dc = 0 then None else Some (nansum dc / real (count dc)))"

definition nanvar :: "real option list \<Rightarrow> real option" where
  "nanvar dc =
     (if count dc \<le> 1 then None
      else let avg = nansum dc / real (count dc);
               sqr = map (\<lambda>v. case v of None \<Rightarrow> 0 | Some x \<Rightarrow> (avg - x)\<^sup>2) dc
           in Some (sum_list sqr / real (count dc - 1)))"

definition nanstd :: "real option list \<Rightarrow> real option" where
  "nanstd dc = map_option sqrt (nanvar dc)"

fun reduce_skipna :: "(real \<Rightarrow> real \<Rightarrow> real) \<Rightarrow> real option list \<Rightarrow> real option \<Rightarrow> real option" where
  "reduce_skipna f [] acc = acc"
| "reduce_skipna f (None # vs) acc = reduce_skipna f vs acc"
| "reduce_skipna f (Some x # vs) None = reduce_skipna f vs (Some x)"
| "reduce_skipna f (Some x # vs) (Some a) = reduce_skipna f vs (Some (f a x))"

definition nanmin :: "real option list \<Rightarrow> real option" where
  "nanmin dc = reduce_skipna min dc None"

definition nanmax :: "real option list \<Rightarrow> real option" where
  "nanmax dc = reduce_skipna max dc None"

definition nanmedian :: "real option list \<Rightarrow> real option" where
  "nanmedian dc =
     (let xs = sort (dropna dc); n = length xs
      in if n = 0 then None
         else if odd n then Some (xs ! (n div 2))
         else Some ((xs ! (n div 2 - 1) + xs ! (n div 2)) / 2))"

text \<open>The returned dict, a Python float (possibly NaN) under each of its seven keys.\<close>

record summary_stats =
  s_Count :: "real option"
  s_Mean :: "real option"
  s_StdDev :: "real option"
  s_Min :: "real option"
  s_Median :: "real option"
  s_Max :: "real option"
  s_Sum :: "real option"

definition compute_disaster_summary :: "'a merged_row list \<Rightarrow> summary_stats" where
  "compute_disaster_summary merged =
     (let dc = map m_disaster_count merged
      in \<lparr>s_Count = Some (real (count dc)),
          s_Mean = nanmean dc,
          s_StdDev = nanstd dc,
          s_Min = nanmin dc,
          s_Median = nanmedian dc,
          s_Max = nanmax dc,
          s_Sum = Some (nansum dc)\<rparr>)"

subsection \<open>Type frequencies\<close>

text \<open>
  \<^verbatim>\<open>Series.value_counts()\<close>: the distinct values with their numbers of occurrences,
  the most frequent first. pandas does not fix the order of values with equal counts; the
  model lists them in order of first appearance.
\<close>

definition value_counts :: "string list \<Rightarrow> (string \<times> nat) list" where
  "value_counts col =
     sort_key (\<lambda>(v, n). - int n)
       (map (\<lambda>v. (v, length (filter (\<lambda>w. w = v) col))) (rev (remdups (rev col))))"

definition disaster_type_counts :: "event_row list \<Rightarrow> (string \<times> nat) list" where
  "disaster_type_counts disasters_all = value_counts (map disaster_type disasters_all)"

section \<open>A library for the examples\<close>

text \<open>
  An instance of the library parameter: its dates are the ISO dates \<^verbatim>\<open>YYYY-MM-DD\<close>
  of the calendar, whatever the column, and it never raises; its numbers are the
  unsigned decimal integers.
\<close>

definition digit_val :: "char \<Rightarrow> nat option" where
  "digit_val = map_of [(CHR ''0'', 0), (CHR ''1'', 1), (CHR ''2'', 2), (CHR ''3'', 3),
     (CHR ''4'', 4), (CHR ''5'', 5), (CHR ''6'', 6), (CHR ''7'', 7), (CHR ''8'', 8),
     (CHR ''9'', 9)]"

fun digits_val :: "string \<Rightarrow> nat \<Rightarrow> nat option" where
  "digits_val [] acc = Some acc"
| "digits_val (c # cs) acc =
     (case digit_val c of None \<Rightarrow> None | Some d \<Rightarrow> digits_val cs (10 * acc + d))"

definition days_in_month :: "nat \<Rightarrow> nat \<Rightarrow> nat" where
  "days_in_month y m =
     (if m = 2 then (if y mod 4 = 0 \<and> (y mod 100 \<noteq> 0 \<or> y mod 400 = 0) then 29 else 28)
      else if m = 4 \<or> m = 6 \<or> m = 9 \<or> m = 11 then 30 else 31)"

definition iso_date :: "cell \<Rightarrow> timestamp option" where
  "iso_date c =
     (case c of
        Str s \<Rightarrow>
          (if length s = 10 \<and> s ! 4 = CHR ''-'' \<and> s ! 7 = CHR ''-'' then
             (case (digits_val (take 4 s) 0, digits_val (take 2 (drop 5 s)) 0,
                    digits_val (drop 8 s) 0) of
                (Some y, Some m, Some d) \<Rightarrow>
                  (if 1 \<le> y \<and> 1 \<le> m \<and> m \<le> 12 \<and> 1 \<le> d \<and> d \<le> days_in_month y m
                   then Some \<lparr>ts_year = int y, ts_month = m, ts_day = d\<rparr> else None)
              | _ \<Rightarrow> None)
           else None)
      | _ \<Rightarrow> None)"

definition dec_nat :: "string \<Rightarrow> nat option" where
  "dec_nat s = (if s = [] then None else digits_val s 0)"

definition ex_library :: library where
  "ex_library = \<lparr>parse_dates = (\<lambda>col. Inr iso_date),
                 parse_number = (\<lambda>s. map_option (\<lambda>n. Fin (real n)) (dec_nat s)),
                 parse_int = (\<lambda>s. map_option int (dec_nat s))\<rparr>"

section \<open>Well-formed rows\<close>

text \<open>
  The rows that the cleaning keeps, in the words of the specification: the date parses
  (for Gia, the year is a number), the temperature is a number, the category is there;
  and the row of the cleaned table that each of them gives. \<open>d\<close> is how the dates of
  the row's column are read.
\<close>

fun is_Num :: "cell \<Rightarrow> bool" where
  "is_Num (Num x) = True"
| "is_Num c = False"

definition gia_ok :: "gia_row \<Rightarrow> bool" where
  "gia_ok r = (is_Num (Year r) \<and> is_Num (Average_Fahrenheit_Temperature r))"

definition berk_ok :: "(cell \<Rightarrow> timestamp option) \<Rightarrow> berk_row \<Rightarrow> bool" where
  "berk_ok d r = (d (dt r) \<noteq> None \<and> is_Num (LandAndOceanAverageTemperature r))"

definition josep_ok :: "library \<Rightarrow> (cell \<Rightarrow> timestamp option) \<Rightarrow> josep_row \<Rightarrow> bool" where
  "josep_ok L d r =
     (d (EventDate r) \<noteq> None \<and> is_Num (to_numeric L (TemperatureFahrenheit r)))"

definition baris_ok :: "(cell \<Rightarrow> timestamp option) \<Rightarrow> baris_row \<Rightarrow> bool" where
  "baris_ok d r = (d (b_EventDate r) \<noteq> None \<and> Var5 r \<noteq> None)"

definition shrey_ok :: "(cell \<Rightarrow> timestamp option) \<Rightarrow> shrey_row \<Rightarrow> bool" where
  "shrey_ok d r = (d (Date r) \<noteq> None \<and> DisasterType r \<noteq> None)"

definition gia_keep :: "gia_row \<Rightarrow> temp_row option" where
  "gia_keep r =
     (case (Year r, Average_Fahrenheit_Temperature r) of
        (Num (Fin y), Num t) \<Rightarrow> Some \<lparr>year = astype_int y, TempF = t, source = Gia_Bach_Nguyen\<rparr>
      | _ \<Rightarrow> None)"

definition berk_keep :: "(cell \<Rightarrow> timestamp option) \<Rightarrow> berk_row \<Rightarrow> temp_row option" where
  "berk_keep d r =
     (case (d (dt r), celsius_to_F (LandAndOceanAverageTemperature r)) of
        (Some ts, Num t) \<Rightarrow>
          Some \<lparr>year = astype_int (real_of_int (ts_year ts)), TempF = t, source = Berkeley_Earth\<rparr>
      | _ \<Rightarrow> None)"

definition josep_keep :: "library \<Rightarrow> (cell \<Rightarrow> timestamp option) \<Rightarrow> josep_row \<Rightarrow> temp_row option" where
  "josep_keep L d r =
     (case (d (EventDate r), to_numeric L (TemperatureFahrenheit r)) of
        (Some ts, Num t) \<Rightarrow>
          Some \<lparr>year = astype_int (real_of_int (ts_year ts)), TempF = t, source = Josep_Ferrer\<rparr>
      | _ \<Rightarrow> None)"

definition baris_keep :: "(cell \<Rightarrow> timestamp option) \<Rightarrow> baris_row \<Rightarrow> event_row option" where
  "baris_keep d r =
     (case (d (b_EventDate r), Var5 r) of
        (Some ts, Some t) \<Rightarrow>
          Some \<lparr>event_date = Some ts, d_year = astype_int (real_of_int (ts_year ts)),
                disaster_type = t, d_source = Baris_Dincer\<rparr>
      | _ \<Rightarrow> None)"

definition shrey_keep :: "(cell \<Rightarrow> timestamp option) \<Rightarrow> shrey_row \<Rightarrow> event_row option" where
  "shrey_keep d r =
     (case (d (Date r), DisasterType r) of
        (Some ts, Some t) \<Rightarrow>
          Some \<lparr>event_date = Some ts, d_year = astype_int (real_of_int (ts_year ts)),
                disaster_type = t, d_source = Shreyansh_Dangi\<rparr>
      | _ \<Rightarrow> None)"

text \<open>What lines 90-95 make of a row whose year and temperature are floats.\<close>

definition keep_raw :: "temp_raw \<Rightarrow> temp_row option" where
  "keep_raw r =
     (case (raw_year r, raw_TempF r) of
        (Num (Fin y), Num t) \<Rightarrow> Some \<lparr>year = astype_int y, TempF = t, source = raw_source r\<rparr>
      | _ \<Rightarrow> None)"

definition four_digit :: "int \<Rightarrow> bool" where
  "four_digit y = (1000 \<le> y \<and> y \<le> 9999)"

section \<open>A small run of the pipeline\<close>

text \<open>
  Frames with well-formed and malformed rows, used to evaluate the functions: a blank
  year, a month 13, a temperature that is not a number, a date that is none, a blank
  category.
\<close>

definition ex_gia :: "gia_row list" where
  "ex_gia = [\<lparr>Year = Num (Fin 2021), Average_Fahrenheit_Temperature = Num (Fin 58)\<rparr>,
             \<lparr>Year = NaN, Average_Fahrenheit_Temperature = Num (Fin 57)\<rparr>]"

definition ex_berk :: "berk_row list" where
  "ex_berk = [\<lparr>dt = Str ''2020-03-01'', LandAndOceanAverageTemperature = Num (Fin 10)\<rparr>,
              \<lparr>dt = Str ''2020-07-01'', LandAndOceanAverageTemperature = Num (Fin 20)\<rparr>]"

definition ex_josep :: "josep_row list" where
  "ex_josep = [\<lparr>EventDate = Str ''2019-05-01'', TemperatureFahrenheit = Str ''60''\<rparr>,
               \<lparr>EventDate = Str ''2019-13-01'', TemperatureFahrenheit = Str ''61''\<rparr>,
               \<lparr>EventDate = Str ''2019-06-01'', TemperatureFahrenheit = Str ''warm''\<rparr>]"

definition ex_baris :: "baris_row list" where
  "ex_baris = [\<lparr>b_EventDate = Str ''2021-01-05'', Var5 = Some ''Flood''\<rparr>,
               \<lparr>b_EventDate = Str ''2021-02-10'', Var5 = Some ''Flood''\<rparr>,
               \<lparr>b_EventDate = Str ''unknown'', Var5 = Some ''Flood''\<rparr>,
               \<lparr>b_EventDate = Str ''2022-03-05'', Var5 = None\<rparr>]"

definition ex_shrey :: "shrey_row list" where
  "ex_shrey = [\<lparr>Date = Str ''2021-08-20'', DisasterType = Some ''Storm''\<rparr>]"

definition ex_temps_all :: "temp_row list" where
  "ex_temps_all = [\<lparr>year = 2021, TempF = Fin 58, source = Gia_Bach_Nguyen\<rparr>,
                   \<lparr>year = 2020, TempF = Fin 50, source = Berkeley_Earth\<rparr>,
                   \<lparr>year = 2020, TempF = Fin 68, source = Berkeley_Earth\<rparr>,
                   \<lparr>year = 2019, TempF = Fin 60, source = Josep_Ferrer\<rparr>]"

definition ex_temps_annual :: "(int \<times> pyfloat option) list" where
  "ex_temps_annual = [(2019, Some (Fin 60)), (2020, Some (Fin 59)), (2021, Some (Fin 58))]"

definition ex_disasters_all :: "event_row list" where
  "ex_disasters_all =
     [\<lparr>event_date = Some \<lparr>ts_year = 2021, ts_month = 1, ts_day = 5\<rparr>, d_year = 2021,
       disaster_type = ''Flood'', d_source = Baris_Dincer\<rparr>,
      \<lparr>event_date = Some \<lparr>ts_year = 2021, ts_month = 2, ts_day = 10\<rparr>, d_year = 2021,
       disaster_type = ''Flood'', d_source = Baris_Dincer\<rparr>,
      \<lparr>event_date = Some \<lparr>ts_year = 2021, ts_month = 8, ts_day = 20\<rparr>, d_year = 2021,
       disaster_type = ''Storm'', d_source = Shreyansh_Dangi\<rparr>]"

definition ex_merged :: "pyfloat option merged_row list" where
  "ex_merged = [\<lparr>m_year = 2019, m_TempF = Some (Some (Fin 60)), m_disaster_count = None\<rparr>,
                \<lparr>m_year = 2020, m_TempF = Some (Some (Fin 59)), m_disaster_count = None\<rparr>,
                \<lparr>m_year = 2021, m_TempF = Some (Some (Fin 58)), m_disaster_count = Some 3\<rparr>]"

section \<open>Evaluating the small run\<close>

lemma ex_iso_dates:
  "iso_date (Str ''2020-03-01'') = Some \<lparr>ts_year = 2020, ts_month = 3, ts_day = 1\<rparr>"
  "iso_date (Str ''2020-07-01'') = Some \<lparr>ts_year = 2020, ts_month = 7, ts_day = 1\<rparr>"
  "iso_date (Str ''2019-05-01'') = Some \<lparr>ts_year = 2019, ts_month = 5, ts_day = 1\<rparr>"
  "iso_date (Str ''2019-06-01'') = Some \<lparr>ts_year = 2019, ts_month = 6, ts_day = 1\<rparr>"
  "iso_date (Str ''2019-13-01'') = None"
  "iso_date (Str ''2021-01-05'') = Some \<lparr>ts_year = 2021, ts_month = 1, ts_day = 5\<rparr>"
  "iso_date (Str ''2021-02-10'') = Some \<lparr>ts_year = 2021, ts_month = 2, ts_day = 10\<rparr>"
  "iso_date (Str ''2021-08-20'') = Some \<lparr>ts_year = 2021, ts_month = 8, ts_day = 20\<rparr>"
  "iso_date (Str ''2022-03-05'') = Some \<lparr>ts_year = 2022, ts_month = 3, ts_day = 5\<rparr>"
  "iso_date (Str ''unknown'') = None"
  by (simp_all add: iso_date_def digit_val_def days_in_month_def)

lemma ex_numbers:
  "parse_number ex_library ''60'' = Some (Fin 60)"
  "parse_number ex_library ''61'' = Some (Fin 61)"
  "parse_number ex_library ''warm'' = None"
  by (simp_all add: ex_library_def dec_nat_def digit_val_def)

lemma ex_to_datetime: "to_datetime ex_library col = Inr (\<lambda>c. case c of NaN \<Rightarrow> None | _ \<Rightarrow> iso_date c)"
  by (simp add: to_datetime_def ex_library_def)

lemma ex_load_temperature_data:
  "load_temperature_data ex_library ex_gia ex_berk ex_josep = Inr (ex_temps_all, ex_temps_annual)"
  by (simp add: load_temperature_data_def temps_berk_std_def temps_gia_std_def
      temps_josep_std_def berk_raw_def josep_raw_def dropna_temps_def cast_row_def
      List.map_filter_def ex_to_datetime dt_year_def float_cell_def astype_int_def trunc_def
      in_int64_def ex_iso_dates ex_numbers ex_gia_def ex_berk_def ex_josep_def ex_temps_all_def
      ex_temps_annual_def sort_values_year_def groupby_mean_def group_keys_def mean_def
      fsum_def)

lemma ex_load_disaster_data:
  "load_disaster_data ex_library ex_baris ex_shrey = Inr (ex_disasters_all, [(2021, 3)])"
  by (simp add: load_disaster_data_def dis_bar_std_def dis_shrey_std_def baris_raw_def
      shrey_raw_def clean_events_def List.map_filter_def ex_to_datetime dt_year_def
      astype_int_def trunc_def in_int64_def ex_iso_dates ex_baris_def ex_shrey_def
      ex_disasters_all_def sort_values_year_def groupby_size_def group_keys_def)

lemma ex_merge_annual: "merge_annual ex_temps_annual [(2021, 3)] = ex_merged"
  by (simp add: merge_annual_def pd_merge_outer_def ex_merged_def ex_temps_annual_def)

lemma ex_build_merged_dataset:
  "build_merged_dataset ex_library ex_gia ex_berk ex_josep ex_baris ex_shrey =
     Inr (ex_temps_annual, [(2021, 3)], ex_merged)"
  by (simp add: build_merged_dataset_def ex_load_temperature_data ex_load_disaster_data
      ex_merge_annual)

section \<open>The paths that raise\<close>

text \<open>
  The loaders raise where the source does: when \<^verbatim>\<open>pd.to_datetime\<close> raises on a date
  column; on text in the Berkeley temperature column (line 68); on a Gia year that
  \<^verbatim>\<open>int\<close> does not read or that is infinite (line 91); on text in Gia's temperature
  column (lines 93-95). A year too large for 64 bits is cast without an error, and an
  infinite temperature is a number: its row is kept.
\<close>

lemma date_error_raises:
  "parse_dates L (map dt berk) = Inl e \<Longrightarrow> load_temperature_data L gia berk josep = Inl e"
  "parse_dates L (map b_EventDate baris) = Inl e \<Longrightarrow> load_disaster_data L baris shrey = Inl e"
  by (simp_all add: load_temperature_data_def temps_berk_std_def load_disaster_data_def
      dis_bar_std_def to_datetime_def)

lemma ex_empty_frames:
  "temps_berk_std ex_library [] = Inr []" "temps_josep_std ex_library [] = Inr []"
  by (simp_all add: temps_berk_std_def temps_josep_std_def ex_to_datetime)

lemma ex_ints:
  "parse_int ex_library ''2021'' = Some 2021" "parse_int ex_library ''unknown'' = None"
  by (simp_all add: ex_library_def dec_nat_def digit_val_def)

lemma gia_text_raises:
  "load_temperature_data ex_library
     [\<lparr>Year = Str ''2021'', Average_Fahrenheit_Temperature = Str ''hot''\<rparr>] [] [] = Inl TypeError"
  "load_temperature_data ex_library
     [\<lparr>Year = Str ''unknown'', Average_Fahrenheit_Temperature = Num (Fin 58)\<rparr>] [] [] =
     Inl ValueError"
  "load_temperature_data ex_library
     [\<lparr>Year = Num PInf, Average_Fahrenheit_Temperature = Num (Fin 58)\<rparr>] [] [] = Inl ValueError"
  by (simp_all add: load_temperature_data_def ex_empty_frames temps_gia_std_def
      dropna_temps_def cast_row_def ex_ints in_int64_def)

lemma astype_int_overflow: "astype_int (10 ^ 19) = - (2 ^ 63)"
  by (simp add: astype_int_def trunc_def in_int64_def)

lemma infinite_temperature_kept:
  "load_temperature_data ex_library [] []
     [\<lparr>EventDate = Str ''2019-05-01'', TemperatureFahrenheit = Num PInf\<rparr>] =
     Inr ([\<lparr>year = 2019, TempF = PInf, source = Josep_Ferrer\<rparr>], [(2019, Some PInf)])"
  by (simp add: load_temperature_data_def temps_berk_std_def temps_josep_std_def
      temps_gia_std_def josep_raw_def ex_to_datetime ex_iso_dates dropna_temps_def cast_row_def
      List.map_filter_def dt_year_def float_cell_def astype_int_def trunc_def in_int64_def
      sort_values_year_def groupby_mean_def group_keys_def mean_def fsum_def)

section \<open>Grouping and joining\<close>

lemma group_keys_sorted: "sorted (group_keys ks)"
  by (simp add: group_keys_def)

lemma group_keys_distinct: "distinct (group_keys ks)"
  by (simp add: group_keys_def)

lemma set_group_keys: "set (group_keys ks) = set ks"
  by (simp add: group_keys_def)

lemma fst_groupby_mean: "map fst (groupby_mean rows) = group_keys (map year rows)"
  by (simp add: groupby_mean_def comp_def)

lemma fst_groupby_size: "map fst (groupby_size rows) = group_keys (map d_year rows)"
  by (simp add: groupby_size_def comp_def)

lemma sort_values_year_sorted: "sorted (map fst rows) \<Longrightarrow> sort_values_year rows = rows"
  by (simp add: sort_values_year_def sort_key_id_if_sorted)

lemma temps_annual_eq:
  "sort_values_year (groupby_mean rows) = groupby_mean rows"
  by (simp add: sort_values_year_sorted fst_groupby_mean group_keys_sorted)

lemma disasters_per_year_eq:
  "sort_values_year (groupby_size rows) = groupby_size rows"
  by (simp add: sort_values_year_sorted fst_groupby_size group_keys_sorted)

lemma load_temperature_data_Inr:
  assumes "load_temperature_data L gia berk josep = Inr (temps_all, temps_annual)"
  shows "temps_annual = groupby_mean temps_all"
  using assms
  by (auto simp: load_temperature_data_def Let_def temps_annual_eq
      split: sum.splits if_splits)

lemma load_disaster_data_Inr:
  assumes "load_disaster_data L baris shrey = Inr (disasters_all, disasters_per_year)"
  shows "disasters_per_year = groupby_size disasters_all"
  using assms
  by (auto simp: load_disaster_data_def Let_def disasters_per_year_eq split: sum.splits)

lemma groupby_size_iff:
  "(y, n) \<in> set (groupby_size rows) \<longleftrightarrow>
     n = length (filter (\<lambda>r. d_year r = y) rows) \<and> 1 \<le> n"
proof -
  have "(y \<in> d_year ` set rows) = (1 \<le> length (filter (\<lambda>r. d_year r = y) rows))"
    by (induction rows) auto
  then show ?thesis
    unfolding groupby_size_def set_map set_group_keys by auto
qed


lemma matches_empty:
  "y \<notin> fst ` set right \<Longrightarrow> filter (\<lambda>(y', c). y' = y) right = []"
  by (induction right) auto

lemma matches_map_of:
  "distinct (map fst right) \<Longrightarrow>
     map snd (filter (\<lambda>(y', c). y' = y) right) =
       (case map_of right y of None \<Rightarrow> [] | Some c \<Rightarrow> [c])"
proof (induction right)
  case Nil
  then show ?case by simp
next
  case (Cons a right)
  obtain y' c where a: "a = (y', c)" by (cases a)
  show ?case
  proof (cases "y' = y")
    case True
    with Cons.prems a have "y \<notin> fst ` set right" by auto
    then show ?thesis using True a by (simp add: matches_empty)
  next
    case False
    then show ?thesis using Cons a by simp
  qed
qed

lemma pd_merge_outer_unique:
  fixes left :: "(int \<times> 'a) list"
  assumes "distinct (map fst right)"
  shows "pd_merge_outer left right =
     map (\<lambda>(y, t). \<lparr>m_year = y, m_TempF = Some t,
                     m_disaster_count = map_option real (map_of right y)\<rparr>) left
     @ map (\<lambda>(y, c). \<lparr>m_year = y, m_TempF = None, m_disaster_count = Some (real c)\<rparr>)
         (filter (\<lambda>(y, c). y \<notin> fst ` set left) right)"
proof -
  have "concat (map (\<lambda>(y, t).
        let ms = map snd (filter (\<lambda>(y', c). y' = y) right)
        in if ms = [] then [\<lparr>m_year = y, m_TempF = Some t, m_disaster_count = None\<rparr>]
           else map (\<lambda>c. \<lparr>m_year = y, m_TempF = Some t, m_disaster_count = Some (real c)\<rparr>) ms)
        xs) =
     map (\<lambda>(y, t). \<lparr>m_year = y, m_TempF = Some t,
                     m_disaster_count = map_option real (map_of right y)\<rparr>) xs"
    for xs :: "(int \<times> 'a) list"
    by (induction xs) (auto simp: matches_map_of [OF assms] Let_def split: option.splits)
  then show ?thesis by (simp add: pd_merge_outer_def)
qed

lemma years_pd_merge_outer:
  assumes "distinct (map fst right)"
  shows "map m_year (pd_merge_outer left right) =
     map fst left @ filter (\<lambda>y. y \<notin> fst ` set left) (map fst right)"
  by (simp add: pd_merge_outer_unique [OF assms] comp_def case_prod_unfold filter_map)

lemma rows_pd_merge_outer:
  assumes "distinct (map fst left)" "distinct (map fst right)"
    and "r \<in> set (pd_merge_outer left right)"
  shows "m_TempF r = map_of left (m_year r) \<and>
         m_disaster_count r = map_option real (map_of right (m_year r))"
proof -
  from assms(3) consider
    (l) y t where "(y, t) \<in> set left"
      "r = \<lparr>m_year = y, m_TempF = Some t, m_disaster_count = map_option real (map_of right y)\<rparr>"
  | (r) y c where "(y, c) \<in> set right" "y \<notin> fst ` set left"
      "r = \<lparr>m_year = y, m_TempF = None, m_disaster_count = Some (real c)\<rparr>"
    unfolding pd_merge_outer_unique [OF assms(2)] by auto
  then show ?thesis
  proof cases
    case l
    then show ?thesis using assms(1) by simp
  next
    case r
    have "map_of left y = None" using r(2) by (simp add: map_of_eq_None_iff)
    moreover have "map_of right y = Some c" using r(1) assms(2) by simp
    ultimately show ?thesis using r(3) by simp
  qed
qed


text \<open>
  The merged table that \<open>build_merged_dataset\<close> returns is \<open>merge_annual\<close> of the two
  aggregates it returns, and their year keys are unique.
\<close>

lemma build_merged_dataset_Inr:
  assumes "build_merged_dataset L gia berk josep baris shrey =
             Inr (temps_annual, disasters_per_year, merged)"
  shows "merged = merge_annual temps_annual disasters_per_year"
    and "distinct (map fst temps_annual)"
    and "distinct (map fst disasters_per_year)"
    and "\<exists>temps_all. load_temperature_data L gia berk josep = Inr (temps_all, temps_annual)"
    and "\<exists>disasters_all.
           load_disaster_data L baris shrey = Inr (disasters_all, disasters_per_year)"
proof -
  from assms obtain temps_all disasters_all where
    l: "load_temperature_data L gia berk josep = Inr (temps_all, temps_annual)"
    and d: "load_disaster_data L baris shrey = Inr (disasters_all, disasters_per_year)"
    and mg: "merged = merge_annual temps_annual disasters_per_year"
    by (auto simp: build_merged_dataset_def split: sum.splits)
  show "merged = merge_annual temps_annual disasters_per_year" by (rule mg)
  show "distinct (map fst temps_annual)"
    unfolding load_temperature_data_Inr [OF l] fst_groupby_mean by (rule group_keys_distinct)
  show "distinct (map fst disasters_per_year)"
    unfolding load_disaster_data_Inr [OF d] fst_groupby_size by (rule group_keys_distinct)
  show "\<exists>temps_all. load_temperature_data L gia berk josep = Inr (temps_all, temps_annual)"
    using l by blast
  show "\<exists>disasters_all.
           load_disaster_data L baris shrey = Inr (disasters_all, disasters_per_year)"
    using d by blast
qed

section \<open>Counting values\<close>

lemma sum_list_insort_key:
  "sum_list (map g (insort_key f x xs)) = g x + sum_list (map g xs)"
  for g :: "'a \<Rightarrow> nat"
  by (induction xs) auto

lemma sum_list_sort_key:
  "sum_list (map g (sort_key f xs)) = sum_list (map g xs)"
  for g :: "'a \<Rightarrow> nat"
  by (induction xs) (auto simp: sum_list_insort_key)

lemma first_seen_keys:
  "distinct (rev (remdups (rev col)))" "set (rev (remdups (rev col))) = set col"
  by simp_all

lemma sum_counts:
  assumes "distinct ks" and "set ks = set col"
  shows "(\<Sum>k\<leftarrow>ks. length (filter (\<lambda>w. w = k) col)) = length col"
proof -
  have "(\<Sum>k\<leftarrow>ks. length (filter (\<lambda>w. w = k) col)) = (\<Sum>k\<leftarrow>ks. count_list col k)"
    by (simp add: count_list_eq_length_filter eq_commute [of _ "_ :: 'a"] cong: filter_cong)
  also have "\<dots> = sum (count_list col) (set ks)"
    using assms(1) by (simp add: sum_list_distinct_conv_sum_set)
  also have "\<dots> = length col"
    using assms(2) by (simp add: sum_count_set)
  finally show ?thesis .
qed

lemma value_counts_iff:
  "(v, n) \<in> set (value_counts col) \<longleftrightarrow> n = length (filter (\<lambda>w. w = v) col) \<and> 1 \<le> n"
proof -
  have "(v \<in> set col) = (1 \<le> length (filter (\<lambda>w. w = v) col))"
    by (induction col) auto
  then show ?thesis
    unfolding value_counts_def set_sort set_map first_seen_keys by auto
qed

lemma distinct_map_sort_key: "distinct (map f (sort_key g xs)) = distinct (map f xs)"
  by (simp add: distinct_map)

lemma value_counts_distinct: "distinct (map fst (value_counts col))"
  unfolding value_counts_def distinct_map_sort_key by (simp add: comp_def)

lemma value_counts_descending: "sorted_wrt (\<ge>) (map snd (value_counts col))"
proof -
  have "sorted (map (\<lambda>(v, n). - int n) (value_counts col))"
    unfolding value_counts_def by (rule sorted_sort_key)
  then show ?thesis
    by (simp add: sorted_wrt_map case_prod_unfold)
qed

lemma value_counts_sum: "sum_list (map snd (value_counts col)) = length col"
  unfolding value_counts_def
  by (simp add: sum_list_sort_key comp_def sum_counts)

section \<open>Reductions that skip NaN\<close>

lemma dropna_simps:
  "dropna [] = []" "dropna (None # vs) = dropna vs" "dropna (Some x # vs) = x # dropna vs"
  by (simp_all add: dropna_def List.map_filter_def)

lemma count_dropna: "count dc = length (dropna dc)"
proof (induction dc)
  case Nil
  show ?case by (simp add: count_def dropna_simps)
next
  case (Cons v dc)
  then show ?case by (cases v) (simp_all add: count_def dropna_simps)
qed

lemma nansum_dropna: "nansum dc = sum_list (dropna dc)"
proof (induction dc)
  case Nil
  show ?case by (simp add: nansum_def dropna_simps)
next
  case (Cons v dc)
  then show ?case by (cases v) (simp_all add: nansum_def fillna_def dropna_simps)
qed

lemma sqr_dropna:
  "sum_list (map (\<lambda>v. case v of None \<Rightarrow> 0 | Some x \<Rightarrow> (a - x)\<^sup>2) dc) =
     (\<Sum>x\<leftarrow>dropna dc. (x - a)\<^sup>2)" for a :: real
proof (induction dc)
  case Nil
  show ?case by (simp add: dropna_simps)
next
  case (Cons v dc)
  then show ?case by (cases v) (simp_all add: dropna_simps power2_commute)
qed

lemma reduce_skipna_Some:
  "reduce_skipna f dc (Some a) = Some (fold (\<lambda>x a. f a x) (dropna dc) a)"
proof (induction dc arbitrary: a)
  case Nil
  show ?case by (simp add: dropna_simps)
next
  case (Cons v dc)
  then show ?case by (cases v) (simp_all add: dropna_simps)
qed

lemma reduce_skipna_None:
  "reduce_skipna f dc None =
     (case dropna dc of [] \<Rightarrow> None | x # xs \<Rightarrow> Some (fold (\<lambda>x a. f a x) xs x))"
proof (induction dc)
  case Nil
  show ?case by (simp add: dropna_simps)
next
  case (Cons v dc)
  then show ?case by (cases v) (simp_all add: dropna_simps reduce_skipna_Some)
qed

lemma nanmin_dropna:
  "nanmin dc = (if dropna dc = [] then None else Some (Min (set (dropna dc))))"
proof -
  have c: "(\<lambda>x a. min a x) = (min :: real \<Rightarrow> real \<Rightarrow> real)"
    by (intro ext) (rule min.commute)
  show ?thesis
  proof (cases "dropna dc")
    case Nil
    then show ?thesis by (simp add: nanmin_def reduce_skipna_None)
  next
    case (Cons x xs)
    have "fold min xs x = Min (set (x # xs))" by (simp only: Min.set_eq_fold)
    then show ?thesis using Cons c by (simp add: nanmin_def reduce_skipna_None)
  qed
qed

lemma nanmax_dropna:
  "nanmax dc = (if dropna dc = [] then None else Some (Max (set (dropna dc))))"
proof -
  have c: "(\<lambda>x a. max a x) = (max :: real \<Rightarrow> real \<Rightarrow> real)"
    by (intro ext) (rule max.commute)
  show ?thesis
  proof (cases "dropna dc")
    case Nil
    then show ?thesis by (simp add: nanmax_def reduce_skipna_None)
  next
    case (Cons x xs)
    have "fold max xs x = Max (set (x # xs))" by (simp only: Max.set_eq_fold)
    then show ?thesis using Cons c by (simp add: nanmax_def reduce_skipna_None)
  qed
qed

lemma nanmean_dropna:
  "nanmean dc =
     (if dropna dc = [] then None else Some (sum_list (dropna dc) / real (length (dropna dc))))"
  by (simp add: nanmean_def count_dropna nansum_dropna)

lemma nanstd_dropna:
  "nanstd dc =
     (if length (dropna dc) \<le> 1 then None
      else Some (sqrt ((\<Sum>x\<leftarrow>dropna dc. (x - sum_list (dropna dc) / real (length (dropna dc)))\<^sup>2)
                        / real (length (dropna dc) - 1))))"
  by (simp add: nanstd_def nanvar_def Let_def count_dropna nansum_dropna sqr_dropna)







lemma nanmedian_empty: "dropna dc = [] \<Longrightarrow> nanmedian dc = None"
  by (simp add: nanmedian_def)



section \<open>Loading and cleaning\<close>

lemma mapM_err_Inr:
  assumes "\<And>x. x \<in> set xs \<Longrightarrow> f x = Inr (g x)"
  shows "mapM_err f xs = Inr (map g xs)"
  using assms by (induction xs) simp_all

lemma mapM_err_set:
  assumes "mapM_err f xs = Inr ys" and "y \<in> set ys"
  shows "\<exists>x \<in> set xs. f x = Inr y"
  using assms
proof (induction xs arbitrary: ys)
  case Nil
  then show ?case by simp
next
  case (Cons x xs)
  then show ?case by (auto split: sum.splits)
qed

lemma map_filter_simps:
  "List.map_filter g [] = []"
  "List.map_filter g (x # xs) =
     (case g x of None \<Rightarrow> List.map_filter g xs | Some y \<Rightarrow> y # List.map_filter g xs)"
  "List.map_filter g (xs @ ys) = List.map_filter g xs @ List.map_filter g ys"
  by (simp_all add: List.map_filter_def split: option.splits)

lemma map_filter_map: "List.map_filter g (map f xs) = List.map_filter (\<lambda>x. g (f x)) xs"
  by (induction xs) (simp_all add: List.map_filter_def)

lemma map_filter_set:
  "y \<in> set (List.map_filter g xs) \<longleftrightarrow> (\<exists>x \<in> set xs. g x = Some y)"
  by (induction xs) (auto simp: map_filter_simps split: option.splits)

lemma map_filter_kept:
  assumes "\<forall>x \<in> set xs. ok x \<longleftrightarrow> g x \<noteq> None"
  shows "length (List.map_filter g xs) = length (filter ok xs)"
  using assms by (induction xs) (auto simp: List.map_filter_def)

lemma trunc_of_int: "trunc (real_of_int i) = i"
  by (simp add: trunc_def)

lemma astype_int_of_int: "in_int64 i \<Longrightarrow> astype_int (real_of_int i) = i"
  by (simp add: astype_int_def trunc_of_int)

lemma four_digit_in_int64: "four_digit i \<Longrightarrow> in_int64 i"
  by (simp add: four_digit_def in_int64_def)

lemma astype_int_neq:
  assumes "i \<noteq> 2020"
  shows "astype_int (real_of_int i) \<noteq> 2020"
  using assms by (simp add: astype_int_def trunc_of_int)

text \<open>The cleaning steps on rows whose year and temperature columns are float columns.\<close>

lemma clean_float_rows:
  assumes "\<forall>r \<in> set raw. \<not> is_Str (raw_year r) \<and> raw_year r \<noteq> Num PInf \<and>
             raw_year r \<noteq> Num NInf \<and> \<not> is_Str (raw_TempF r)"
  shows "\<exists>cs. mapM_err (cast_row L False) (dropna_temps raw) = Inr cs \<and>
              List.map_filter float_row cs = List.map_filter keep_raw raw"
    and "\<not> list_ex is_Str (map raw_TempF (dropna_temps raw))"
  using assms
proof (induction raw)
  case Nil
  {
    case 1
    show ?case by (simp add: dropna_temps_def map_filter_simps)
  next
    case 2
    show ?case by (simp add: dropna_temps_def)
  }
next
  case (Cons r raw)
  {
    case 1
    then have r: "\<not> is_Str (raw_year r)" "raw_year r \<noteq> Num PInf" "raw_year r \<noteq> Num NInf"
      "\<not> is_Str (raw_TempF r)"
      and rest: "\<forall>r \<in> set raw. \<not> is_Str (raw_year r) \<and> raw_year r \<noteq> Num PInf \<and>
             raw_year r \<noteq> Num NInf \<and> \<not> is_Str (raw_TempF r)"
      by simp_all
    from Cons.IH(1) [OF rest] obtain cs where
      cs: "mapM_err (cast_row L False) (dropna_temps raw) = Inr cs"
        "List.map_filter float_row cs = List.map_filter keep_raw raw"
      by blast
    show ?case
    proof (cases "raw_year r \<noteq> NaN \<and> raw_TempF r \<noteq> NaN")
      case False
      then have "keep_raw r = None"
        by (auto simp: keep_raw_def split: cell.splits pyfloat.splits)
      with False cs show ?thesis
        by (auto simp: dropna_temps_def map_filter_simps)
    next
      case True
      with r obtain v t where vt: "raw_year r = Num v" "raw_TempF r = Num t"
        by (cases "raw_year r"; cases "raw_TempF r") auto
      with r obtain y where "v = Fin y" by (cases v) auto
      with vt have yt: "raw_year r = Num (Fin y)" "raw_TempF r = Num t" by simp_all
      have c: "cast_row L False r = Inr (astype_int y, r)"
        by (simp add: cast_row_def yt)
      have k: "keep_raw r = float_row (astype_int y, r)"
        by (simp add: keep_raw_def yt)
      have "dropna_temps (r # raw) = r # dropna_temps raw"
        using True by (simp add: dropna_temps_def)
      then show ?thesis
        using cs c k by (simp add: map_filter_simps yt)
    qed
  next
    case 2
    then show ?case using Cons.IH(2) by (simp add: dropna_temps_def)
  }
qed

lemma keep_raw_gia: "keep_raw \<lparr>raw_year = Year r, raw_TempF = Average_Fahrenheit_Temperature r,
    raw_source = Gia_Bach_Nguyen\<rparr> = gia_keep r"
  by (simp add: keep_raw_def gia_keep_def split: cell.splits pyfloat.splits)

lemma keep_raw_berk: "keep_raw (berk_raw d r) = berk_keep d r"
  by (cases "d (dt r)")
    (simp_all add: keep_raw_def berk_keep_def berk_raw_def float_cell_def dt_year_def
      split: cell.splits)

lemma keep_raw_josep: "keep_raw (josep_raw L d r) = josep_keep L d r"
  by (cases "d (EventDate r)")
    (simp_all add: keep_raw_def josep_keep_def josep_raw_def float_cell_def dt_year_def
      split: cell.splits)

lemma celsius_to_F_not_Str: "\<not> is_Str c \<Longrightarrow> \<not> is_Str (celsius_to_F c)"
  by (cases c rule: celsius_to_F.cases) simp_all

lemma to_numeric_not_Str: "\<not> is_Str (to_numeric L c)"
  by (cases c) (simp_all split: option.splits)

lemma float_cell_year: "\<not> is_Str (float_cell v)" "float_cell v \<noteq> Num PInf" "float_cell v \<noteq> Num NInf"
  by (simp_all add: float_cell_def split: option.splits)

text \<open>
  The loader on float columns: it returns, and the cleaned table is made of the rows of
  the three sources that are kept.
\<close>

lemma load_temperature_data_floats:
  assumes "to_datetime L (map dt berk) = Inr db"
    and "to_datetime L (map EventDate josep) = Inr dj"
    and "\<not> list_ex is_Str (map LandAndOceanAverageTemperature berk)"
    and "\<forall>r \<in> set gia. \<not> is_Str (Year r) \<and> Year r \<noteq> Num PInf \<and> Year r \<noteq> Num NInf \<and>
           \<not> is_Str (Average_Fahrenheit_Temperature r)"
  shows "load_temperature_data L gia berk josep =
     Inr (List.map_filter gia_keep gia @ List.map_filter (berk_keep db) berk
            @ List.map_filter (josep_keep L dj) josep,
          groupby_mean (List.map_filter gia_keep gia @ List.map_filter (berk_keep db) berk
            @ List.map_filter (josep_keep L dj) josep))"
proof -
  let ?raw = "temps_gia_std gia @ map (berk_raw db) berk @ map (josep_raw L dj) josep"
  have b: "temps_berk_std L berk = Inr (map (berk_raw db) berk)"
    by (simp add: temps_berk_std_def assms(1,3))
  have j: "temps_josep_std L josep = Inr (map (josep_raw L dj) josep)"
    by (simp add: temps_josep_std_def assms(2))
  have good: "\<forall>r \<in> set ?raw. \<not> is_Str (raw_year r) \<and> raw_year r \<noteq> Num PInf \<and>
             raw_year r \<noteq> Num NInf \<and> \<not> is_Str (raw_TempF r)"
    using assms(3,4)
    by (auto simp: temps_gia_std_def berk_raw_def josep_raw_def float_cell_year
        celsius_to_F_not_Str to_numeric_not_Str list_ex_iff)
  then have obj: "list_ex is_Str (map raw_year ?raw) = False"
    by (auto simp: list_ex_iff)
  from clean_float_rows(1) [OF good, of L] obtain cs where
    cs: "mapM_err (cast_row L False) (dropna_temps ?raw) = Inr cs"
      "List.map_filter float_row cs = List.map_filter keep_raw ?raw"
    by blast
  have ns: "\<not> list_ex is_Str (map raw_TempF (dropna_temps ?raw))"
    by (rule clean_float_rows(2) [OF good])
  have k: "List.map_filter keep_raw ?raw =
      List.map_filter gia_keep gia @ List.map_filter (berk_keep db) berk
        @ List.map_filter (josep_keep L dj) josep"
    by (simp add: map_filter_simps(3) temps_gia_std_def map_filter_map keep_raw_gia
        keep_raw_berk keep_raw_josep)
  show ?thesis
    unfolding load_temperature_data_def b j
    by (simp only: sum.case Let_def obj cs ns if_False k temps_annual_eq)
qed


lemma clean_event_baris: "clean_event (baris_raw d r) = baris_keep d r"
  by (cases "d (b_EventDate r)")
    (simp_all add: baris_keep_def baris_raw_def dt_year_def split: option.splits)

lemma clean_event_shrey: "clean_event (shrey_raw d r) = shrey_keep d r"
  by (cases "d (Date r)")
    (simp_all add: shrey_keep_def shrey_raw_def dt_year_def split: option.splits)

lemma clean_events_sources:
  "clean_events (map (baris_raw da) baris @ map (shrey_raw ds) shrey) =
     List.map_filter (baris_keep da) baris @ List.map_filter (shrey_keep ds) shrey"
  unfolding clean_events_def map_filter_simps(3) map_filter_map clean_event_baris
    clean_event_shrey ..

lemma load_disaster_data_dates:
  assumes "to_datetime L (map b_EventDate baris) = Inr da"
    and "to_datetime L (map Date shrey) = Inr ds"
  shows "load_disaster_data L baris shrey =
     Inr (List.map_filter (baris_keep da) baris @ List.map_filter (shrey_keep ds) shrey,
          groupby_size
            (List.map_filter (baris_keep da) baris @ List.map_filter (shrey_keep ds) shrey))"
  by (simp add: load_disaster_data_def dis_bar_std_def dis_shrey_std_def assms Let_def
      clean_events_sources disasters_per_year_eq)

lemma load_disaster_data_cases:
  assumes "load_disaster_data L baris shrey = Inr (disasters_all, disasters_per_year)"
  shows "\<exists>da ds. to_datetime L (map b_EventDate baris) = Inr da \<and>
           to_datetime L (map Date shrey) = Inr ds \<and>
           disasters_all =
             List.map_filter (baris_keep da) baris @ List.map_filter (shrey_keep ds) shrey"
proof -
  from assms obtain da ds where
    d: "to_datetime L (map b_EventDate baris) = Inr da" "to_datetime L (map Date shrey) = Inr ds"
    by (auto simp: load_disaster_data_def dis_bar_std_def dis_shrey_std_def split: sum.splits)
  from load_disaster_data_dates [OF d] assms d show ?thesis by auto
qed

lemma years_groupby_mean: "fst ` set (groupby_mean rows) = year ` set rows"
proof -
  have "set (map fst (groupby_mean rows)) = set (map year rows)"
    unfolding fst_groupby_mean by (rule set_group_keys)
  then show ?thesis by simp
qed

lemma years_groupby_size: "fst ` set (groupby_size rows) = d_year ` set rows"
proof -
  have "set (map fst (groupby_size rows)) = set (map d_year rows)"
    unfolding fst_groupby_size by (rule set_group_keys)
  then show ?thesis by simp
qed

lemma years_merge_annual:
  assumes "distinct (map fst right)"
  shows "m_year ` set (merge_annual left right) = fst ` set left \<union> fst ` set right"
proof -
  have "set (map m_year (merge_annual left right)) = set (map m_year (pd_merge_outer left right))"
    by (simp add: merge_annual_def)
  also have "\<dots> = fst ` set left \<union> fst ` set right"
    unfolding years_pd_merge_outer [OF assms] by auto
  finally show ?thesis by simp
qed

lemma is_Num_celsius: "is_Num (celsius_to_F c) = is_Num c"
  by (cases c rule: celsius_to_F.cases) simp_all

lemma gia_keep_ok:
  assumes "Year r \<noteq> Num PInf" and "Year r \<noteq> Num NInf"
  shows "gia_ok r \<longleftrightarrow> gia_keep r \<noteq> None"
  using assms
  by (cases "Year r"; cases "Average_Fahrenheit_Temperature r")
    (auto simp: gia_ok_def gia_keep_def split: pyfloat.splits)

lemma berk_keep_ok: "berk_ok d r \<longleftrightarrow> berk_keep d r \<noteq> None"
proof -
  have "berk_ok d r \<longleftrightarrow>
      d (dt r) \<noteq> None \<and> is_Num (celsius_to_F (LandAndOceanAverageTemperature r))"
    by (simp only: berk_ok_def is_Num_celsius)
  then show ?thesis
    by (cases "d (dt r)"; cases "celsius_to_F (LandAndOceanAverageTemperature r)")
      (simp_all add: berk_keep_def)
qed

lemma josep_keep_ok: "josep_ok L d r \<longleftrightarrow> josep_keep L d r \<noteq> None"
  by (cases "d (EventDate r)"; cases "to_numeric L (TemperatureFahrenheit r)")
    (auto simp: josep_ok_def josep_keep_def)

lemma baris_keep_ok: "baris_ok d r \<longleftrightarrow> baris_keep d r \<noteq> None"
  by (cases "d (b_EventDate r)"; cases "Var5 r") (auto simp: baris_ok_def baris_keep_def)

lemma shrey_keep_ok: "shrey_ok d r \<longleftrightarrow> shrey_keep d r \<noteq> None"
  by (cases "d (Date r)"; cases "DisasterType r") (auto simp: shrey_ok_def shrey_keep_def)

lemma no_rows_of_year:
  assumes "\<forall>x \<in> set xs. \<forall>t. g x = Some t \<longrightarrow> year t \<noteq> k"
  shows "filter (\<lambda>r. year r = k) (List.map_filter g xs) = []"
  using assms by (induction xs) (auto simp: map_filter_simps split: option.splits)

lemma map_of_groupby_mean:
  "map_of (groupby_mean rows) y =
     (if y \<in> year ` set rows then Some (mean (map TempF (filter (\<lambda>r. year r = y) rows)))
      else None)"
  by (simp add: groupby_mean_def map_of_map_restrict set_group_keys restrict_map_def)

section \<open>Years\<close>

lemma float_row_year: "float_row c = Some t \<Longrightarrow> year t = fst c"
  by (cases c) (auto split: cell.splits)

lemma cast_rows_years:
  assumes "mapM_err (cast_row L object) kept = Inr cs" and "t \<in> set (List.map_filter float_row cs)"
  shows "\<exists>r \<in> set kept. year_cast L object (raw_year r) = Inr (year t)"
proof -
  from assms(2) obtain c where c: "c \<in> set cs" "float_row c = Some t"
    by (auto simp: map_filter_set)
  from mapM_err_set [OF assms(1) c(1)] obtain r where
    r: "r \<in> set kept" "cast_row L object r = Inr c"
    by blast
  from r(2) have "year_cast L object (raw_year r) = Inr (fst c)"
    by (auto simp: cast_row_def split: sum.splits)
  with r(1) float_row_year [OF c(2)] show ?thesis by auto
qed

lemma year_cast_date:
  assumes "year_cast L object (float_cell (dt_year d)) = Inr k"
  shows "\<exists>ts. d = Some ts \<and> (in_int64 (ts_year ts) \<longrightarrow> k = ts_year ts)"
  using assms
  by (cases d)
    (auto simp: float_cell_def dt_year_def trunc_of_int astype_int_def split: if_splits)

lemma temps_all_years_from:
  assumes "load_temperature_data L gia berk josep = Inr (temps_all, temps_annual)"
    and "t \<in> set temps_all"
  shows "\<exists>db dj object.
           to_datetime L (map dt berk) = Inr db \<and>
           to_datetime L (map EventDate josep) = Inr dj \<and>
           (\<exists>r \<in> set (temps_gia_std gia @ map (berk_raw db) berk @ map (josep_raw L dj) josep).
              year_cast L object (raw_year r) = Inr (year t))"
proof -
  from assms(1) obtain db where db: "to_datetime L (map dt berk) = Inr db"
    and tb: "temps_berk_std L berk = Inr (map (berk_raw db) berk)"
    by (auto simp: load_temperature_data_def temps_berk_std_def split: sum.splits if_splits)
  from assms(1) obtain dj where dj: "to_datetime L (map EventDate josep) = Inr dj"
    and tj: "temps_josep_std L josep = Inr (map (josep_raw L dj) josep)"
    by (auto simp: load_temperature_data_def temps_josep_std_def split: sum.splits if_splits)
  let ?raw = "temps_gia_std gia @ map (berk_raw db) berk @ map (josep_raw L dj) josep"
  let ?obj = "list_ex is_Str (map raw_year ?raw)"
  from assms(1) obtain cs where
    cs: "mapM_err (cast_row L ?obj) (dropna_temps ?raw) = Inr cs"
    and ta: "temps_all = List.map_filter float_row cs"
    unfolding load_temperature_data_def tb tj
    by (auto simp: Let_def split: sum.splits if_splits)
  from cast_rows_years [OF cs] assms(2) ta obtain r where
    "r \<in> set (dropna_temps ?raw)" "year_cast L ?obj (raw_year r) = Inr (year t)"
    by blast
  then have "\<exists>r \<in> set ?raw. year_cast L ?obj (raw_year r) = Inr (year t)"
    by (auto simp: dropna_temps_def)
  with db dj show ?thesis by blast
qed

section \<open>The claims\<close>

text \<open>
  C1. For annual aggregates with unique year keys, the merged table of
  \<open>build_merged_dataset\<close> (the join and sort of lines 179-181, \<open>merge_annual\<close>) has
  exactly the years of the two inputs, each once, in ascending order; each row carries
  the temperature and the count that the inputs have for its year, and a missing value
  (\<open>None\<close>, not zero) in the column of an input that does not have the year.
  The aggregates inside \<open>build_merged_dataset\<close> meet the condition, by
  \<open>build_merged_dataset_Inr\<close>.
\<close>

theorem merged_one_row_per_year:
  assumes "distinct (map fst temps_annual)" and "distinct (map fst disasters_per_year)"
  shows "let merged = merge_annual temps_annual disasters_per_year in
     set (map m_year merged) = fst ` set temps_annual \<union> fst ` set disasters_per_year \<and>
     distinct (map m_year merged) \<and>
     sorted (map m_year merged) \<and>
     (\<forall>r \<in> set merged.
        m_TempF r = map_of temps_annual (m_year r) \<and>
        m_disaster_count r = map_option real (map_of disasters_per_year (m_year r)) \<and>
        (m_year r \<notin> fst ` set temps_annual \<longrightarrow> m_TempF r = None) \<and>
        (m_year r \<notin> fst ` set disasters_per_year \<longrightarrow> m_disaster_count r = None))"
proof -
  let ?J = "pd_merge_outer temps_annual disasters_per_year"
  have ys: "map m_year ?J = map fst temps_annual
      @ filter (\<lambda>y. y \<notin> fst ` set temps_annual) (map fst disasters_per_year)"
    by (rule years_pd_merge_outer [OF assms(2)])
  have d: "distinct (map m_year ?J)"
    unfolding ys using assms by auto
  have d': "distinct (map m_year (sort_key m_year ?J))"
    using d by (simp add: distinct_map)
  have s: "set (map m_year ?J) = fst ` set temps_annual \<union> fst ` set disasters_per_year"
    unfolding ys by auto
  have v: "\<forall>r \<in> set ?J.
        m_TempF r = map_of temps_annual (m_year r) \<and>
        m_disaster_count r = map_option real (map_of disasters_per_year (m_year r)) \<and>
        (m_year r \<notin> fst ` set temps_annual \<longrightarrow> m_TempF r = None) \<and>
        (m_year r \<notin> fst ` set disasters_per_year \<longrightarrow> m_disaster_count r = None)"
    using rows_pd_merge_outer [OF assms] by (auto simp: map_of_eq_None_iff)
  have s': "set (map m_year (sort_key m_year ?J)) =
      fst ` set temps_annual \<union> fst ` set disasters_per_year"
    using s by simp
  have srt: "sorted (map m_year (sort_key m_year ?J))"
    by (rule sorted_sort_key)
  have v': "\<forall>r \<in> set (sort_key m_year ?J).
        m_TempF r = map_of temps_annual (m_year r) \<and>
        m_disaster_count r = map_option real (map_of disasters_per_year (m_year r)) \<and>
        (m_year r \<notin> fst ` set temps_annual \<longrightarrow> m_TempF r = None) \<and>
        (m_year r \<notin> fst ` set disasters_per_year \<longrightarrow> m_disaster_count r = None)"
    unfolding set_sort by (rule v)
  show ?thesis
    unfolding Let_def merge_annual_def
    using s' d' srt v' by blast
qed

theorem merged_one_row_per_year_witness:
  "distinct (map fst ex_temps_annual) \<and>
   distinct (map fst [(2021::int, 3::nat)]) \<and>
   map m_year ex_merged = [2019, 2020, 2021] \<and>
   map m_TempF ex_merged = [Some (Some (Fin 60)), Some (Some (Fin 59)), Some (Some (Fin 58))] \<and>
   map m_disaster_count ex_merged = [None, None, Some 3]"
proof -
  have d1: "distinct (map fst ex_temps_annual)"
    and d2: "distinct (map fst [(2021::int, 3::nat)])"
    by (simp_all add: ex_temps_annual_def)
  from merged_one_row_per_year [OF d1 d2] d1 d2
  show ?thesis by (simp add: ex_merge_annual) (simp add: ex_merged_def)
qed

text \<open>
  C8. In the annual aggregates that \<open>load_temperature_data\<close> and
  \<open>load_disaster_data\<close> return, the years are pairwise distinct and strictly ascending
  in row order.
\<close>

theorem annual_years_unique_ascending:
  "(load_temperature_data L gia berk josep = Inr (temps_all, temps_annual) \<longrightarrow>
      distinct (map fst temps_annual) \<and> sorted_wrt (<) (map fst temps_annual)) \<and>
   (load_disaster_data L baris shrey = Inr (disasters_all, disasters_per_year) \<longrightarrow>
      distinct (map fst disasters_per_year) \<and> sorted_wrt (<) (map fst disasters_per_year))"
  by (auto dest!: load_temperature_data_Inr load_disaster_data_Inr
      simp: fst_groupby_mean fst_groupby_size strict_sorted_iff group_keys_sorted
        group_keys_distinct)

theorem annual_years_unique_ascending_witness:
  "load_temperature_data ex_library ex_gia ex_berk ex_josep =
     Inr (ex_temps_all, ex_temps_annual) \<and>
   sorted_wrt (<) (map fst ex_temps_annual) \<and>
   load_disaster_data ex_library ex_baris ex_shrey = Inr (ex_disasters_all, [(2021, 3)]) \<and>
   sorted_wrt (<) (map fst [(2021::int, 3::nat)])"
proof -
  note T = annual_years_unique_ascending [of ex_library ex_gia ex_berk ex_josep ex_temps_all
      ex_temps_annual ex_baris ex_shrey ex_disasters_all "[(2021, 3)]"]
  from T [THEN conjunct1, rule_format, OF ex_load_temperature_data]
  have a: "sorted_wrt (<) (map fst ex_temps_annual)"
    by (rule conjunct2)
  from T [THEN conjunct2, rule_format, OF ex_load_disaster_data]
  have b: "sorted_wrt (<) (map fst [(2021::int, 3::nat)])"
    by (rule conjunct2)
  show ?thesis using ex_load_temperature_data ex_load_disaster_data a b by (intro conjI)
qed

text \<open>
  C6. The annual disaster aggregate that \<open>load_disaster_data\<close> returns has the row
  \<open>(y, n)\<close> exactly when \<open>n\<close> is the number of cleaned events of year \<open>y\<close>, over both
  sources, and \<open>n\<close> is at least 1: a year without events has no row at all. (The
  loader returns whenever \<^verbatim>\<open>pd.to_datetime\<close> does on its two date columns, by
  \<open>load_disaster_data_dates\<close>.)
\<close>

theorem disasters_per_year_counts:
  assumes "load_disaster_data L baris shrey = Inr (disasters_all, disasters_per_year)"
  shows "(y, n) \<in> set disasters_per_year \<longleftrightarrow>
     n = length (filter (\<lambda>e. d_year e = y) disasters_all) \<and> 1 \<le> n"
  unfolding load_disaster_data_Inr [OF assms] by (rule groupby_size_iff)

theorem disasters_per_year_counts_witness:
  "load_disaster_data ex_library ex_baris ex_shrey = Inr (ex_disasters_all, [(2021, 3)]) \<and>
   length (filter (\<lambda>e. d_year e = 2021) ex_disasters_all) = 3 \<and>
   (\<forall>n. (2022, n) \<notin> set [(2021::int, 3::nat)])"
  using disasters_per_year_counts [OF ex_load_disaster_data, of 2021 3]
    ex_load_disaster_data
  by simp

text \<open>
  C10. Every count in the annual disaster aggregate that \<open>load_disaster_data\<close> returns
  is at least 1, never 0, and its year is the year of some cleaned event.
\<close>

theorem disaster_count_positive:
  assumes "load_disaster_data L baris shrey = Inr (disasters_all, disasters_per_year)"
  shows "\<forall>(y, n) \<in> set disasters_per_year.
     1 \<le> n \<and> n \<noteq> 0 \<and> (\<exists>e \<in> set disasters_all. d_year e = y)"
proof -
  have "\<exists>e \<in> set rows. d_year e = y" if "1 \<le> length (filter (\<lambda>e. d_year e = y) rows)"
    for rows :: "event_row list" and y
    using that by (induction rows) (auto split: if_splits)
  then show ?thesis
    unfolding load_disaster_data_Inr [OF assms] by (auto simp: groupby_size_iff)
qed

theorem disaster_count_positive_witness:
  "load_disaster_data ex_library ex_baris ex_shrey = Inr (ex_disasters_all, [(2021, 3)]) \<and>
   list_all (\<lambda>(y, n). 1 \<le> n \<and> (\<exists>e \<in> set ex_disasters_all. d_year e = y)) [(2021::int, 3::nat)]"
  using disaster_count_positive [OF ex_load_disaster_data] ex_load_disaster_data
  by (simp add: list_all_iff)

text \<open>
  C7. \<open>disaster_type_counts\<close> lists each distinct disaster type once, with the exact
  number of cleaned events of that type, in descending order of the counts; the counts
  add up to the number of cleaned events.
\<close>

theorem type_counts_exact_descending:
  "distinct (map fst (disaster_type_counts disasters_all)) \<and>
   (\<forall>t n. (t, n) \<in> set (disaster_type_counts disasters_all) \<longleftrightarrow>
      n = length (filter (\<lambda>e. disaster_type e = t) disasters_all) \<and> 1 \<le> n) \<and>
   sorted_wrt (\<ge>) (map snd (disaster_type_counts disasters_all)) \<and>
   sum_list (map snd (disaster_type_counts disasters_all)) = length disasters_all"
  unfolding disaster_type_counts_def
  by (simp add: value_counts_distinct value_counts_iff value_counts_descending
      value_counts_sum filter_map comp_def)

theorem type_counts_exact_descending_witness:
  "disaster_type_counts ex_disasters_all = [(''Flood'', 2), (''Storm'', 1)] \<and>
   sum_list (map snd (disaster_type_counts ex_disasters_all)) = 3"
  using type_counts_exact_descending [of ex_disasters_all]
  by (simp add: disaster_type_counts_def value_counts_def ex_disasters_all_def)




text \<open>
  C2. On a \<open>disaster_count\<close> column that is entirely missing, also with no row, the
  sum is 0, not NaN: \<^verbatim>\<open>Series.sum()\<close> adds up the values left after NaN is skipped.
\<close>

theorem all_missing_sum_is_zero:
  "s_Sum (compute_disaster_summary
            [\<lparr>m_year = 2020, m_TempF = Some (59::real), m_disaster_count = None\<rparr>]) = Some 0 \<and>
   s_Sum (compute_disaster_summary ([] :: real merged_row list)) = Some 0"
  by (simp add: compute_disaster_summary_def Let_def nansum_def fillna_def)

text \<open>
  C2, amended. On such a column \<open>compute_disaster_summary\<close> returns Count 0, Sum 0 and
  NaN for Mean, StdDev, Min, Median and Max.
\<close>

theorem all_missing_summary:
  assumes "\<forall>r \<in> set merged. m_disaster_count r = None"
  shows "compute_disaster_summary merged =
     \<lparr>s_Count = Some 0, s_Mean = None, s_StdDev = None, s_Min = None, s_Median = None,
      s_Max = None, s_Sum = Some 0\<rparr>"
proof -
  have "dropna (map m_disaster_count merged) = []"
    using assms by (induction merged) (simp_all add: dropna_simps)
  then show ?thesis
    by (simp add: compute_disaster_summary_def Let_def count_dropna nansum_dropna
        nanmean_dropna nanstd_dropna nanmin_dropna nanmax_dropna nanmedian_empty)
qed

theorem all_missing_summary_witness:
  "compute_disaster_summary
     [\<lparr>m_year = 2019, m_TempF = Some (60::real), m_disaster_count = None\<rparr>,
      \<lparr>m_year = 2020, m_TempF = Some (59::real), m_disaster_count = None\<rparr>] =
     \<lparr>s_Count = Some 0, s_Mean = None, s_StdDev = None, s_Min = None, s_Median = None,
      s_Max = None, s_Sum = Some 0\<rparr> \<and>
   compute_disaster_summary ([] :: real merged_row list) =
     \<lparr>s_Count = Some 0, s_Mean = None, s_StdDev = None, s_Min = None, s_Median = None,
      s_Max = None, s_Sum = Some 0\<rparr>"
proof -
  have h: "\<forall>r \<in> set [\<lparr>m_year = 2019, m_TempF = Some (60::real), m_disaster_count = None\<rparr>,
            \<lparr>m_year = 2020, m_TempF = Some (59::real), m_disaster_count = None\<rparr>].
        m_disaster_count r = None"
    by simp
  have e: "\<forall>r \<in> set ([] :: real merged_row list). m_disaster_count r = None"
    by simp
  show ?thesis
    using all_missing_summary [OF h] all_missing_summary [OF e] by (rule conjI)
qed


text \<open>
  C4. With the two Berkeley readings of 10.0 and 20.0 degrees Celsius dated 2020-03-01 and
  2020-07-01 (dates that the column's parse reads as of the year 2020), no other row of
  the year 2020 in any source, and float columns with finite years in Gia's frame,
  \<open>load_temperature_data\<close> returns, and its annual aggregate has 59.0 for 2020, the
  mean of 50.0 and 68.0.
\<close>

theorem celsius_scenario_2020:
  assumes "to_datetime L (map dt berk) = Inr db"
    and "map_option ts_year (db (Str ''2020-03-01'')) = Some 2020"
    and "map_option ts_year (db (Str ''2020-07-01'')) = Some 2020"
    and "berk = \<lparr>dt = Str ''2020-03-01'', LandAndOceanAverageTemperature = Num (Fin 10)\<rparr>
              # \<lparr>dt = Str ''2020-07-01'', LandAndOceanAverageTemperature = Num (Fin 20)\<rparr> # rest"
    and "\<forall>r \<in> set rest. \<not> is_Str (LandAndOceanAverageTemperature r) \<and>
           (\<forall>t. db (dt r) = Some t \<longrightarrow> ts_year t \<noteq> 2020)"
    and "to_datetime L (map EventDate josep) = Inr dj"
    and "\<forall>r \<in> set josep. \<forall>t. dj (EventDate r) = Some t \<longrightarrow> ts_year t \<noteq> 2020"
    and "\<forall>r \<in> set gia. \<not> is_Str (Year r) \<and> Year r \<noteq> Num PInf \<and> Year r \<noteq> Num NInf \<and>
           \<not> is_Str (Average_Fahrenheit_Temperature r)"
    and "\<forall>r \<in> set gia. \<forall>y. Year r = Num (Fin y) \<longrightarrow> astype_int y \<noteq> 2020"
  shows "\<exists>temps_all temps_annual.
     load_temperature_data L gia berk josep = Inr (temps_all, temps_annual) \<and>
     map TempF (filter (\<lambda>r. year r = 2020) temps_all) = [Fin 50, Fin 68] \<and>
     map_of temps_annual 2020 = Some (Some (Fin 59)) \<and>
     (2020, Some (Fin 59)) \<in> set temps_annual"
proof -
  let ?r1 = "\<lparr>dt = Str ''2020-03-01'', LandAndOceanAverageTemperature = Num (Fin 10)\<rparr>"
  let ?r2 = "\<lparr>dt = Str ''2020-07-01'', LandAndOceanAverageTemperature = Num (Fin 20)\<rparr>"
  let ?all = "List.map_filter gia_keep gia @ List.map_filter (berk_keep db) berk
            @ List.map_filter (josep_keep L dj) josep"
  have num: "\<not> list_ex is_Str (map LandAndOceanAverageTemperature berk)"
    using assms(4,5) by (auto simp: list_ex_iff)
  have l: "load_temperature_data L gia berk josep = Inr (?all, groupby_mean ?all)"
    by (rule load_temperature_data_floats [OF assms(1) assms(6) num assms(8)])
  have g: "filter (\<lambda>r. year r = 2020) (List.map_filter gia_keep gia) = []"
    using assms(9)
    by (intro no_rows_of_year) (auto simp: gia_keep_def split: cell.splits pyfloat.splits)
  have j: "filter (\<lambda>r. year r = 2020) (List.map_filter (josep_keep L dj) josep) = []"
    using assms(7)
    by (intro no_rows_of_year)
      (auto simp: josep_keep_def astype_int_neq split: option.splits cell.splits)
  have b: "filter (\<lambda>r. year r = 2020) (List.map_filter (berk_keep db) rest) = []"
    using assms(5)
    by (intro no_rows_of_year)
      (auto simp: berk_keep_def astype_int_neq split: option.splits cell.splits)
  from assms(2) obtain t1 where t1: "db (Str ''2020-03-01'') = Some t1" "ts_year t1 = 2020"
    by auto
  from assms(3) obtain t2 where t2: "db (Str ''2020-07-01'') = Some t2" "ts_year t2 = 2020"
    by auto
  have r12: "List.map_filter (berk_keep db) [?r1, ?r2] =
      [\<lparr>year = 2020, TempF = Fin 50, source = Berkeley_Earth\<rparr>,
       \<lparr>year = 2020, TempF = Fin 68, source = Berkeley_Earth\<rparr>]"
    using t1 t2
    by (simp add: map_filter_simps berk_keep_def astype_int_def trunc_def in_int64_def)
  have "berk = [?r1, ?r2] @ rest" by (simp add: assms(4))
  then have bk: "List.map_filter (berk_keep db) berk =
      [\<lparr>year = 2020, TempF = Fin 50, source = Berkeley_Earth\<rparr>,
       \<lparr>year = 2020, TempF = Fin 68, source = Berkeley_Earth\<rparr>]
      @ List.map_filter (berk_keep db) rest"
    by (simp only: map_filter_simps(3) r12)
  have f: "filter (\<lambda>r. year r = 2020) ?all =
      [\<lparr>year = 2020, TempF = Fin 50, source = Berkeley_Earth\<rparr>,
       \<lparr>year = 2020, TempF = Fin 68, source = Berkeley_Earth\<rparr>]"
    by (simp add: g j b bk)
  have "\<lparr>year = 2020, TempF = Fin 50, source = Berkeley_Earth\<rparr>
      \<in> set (filter (\<lambda>r. year r = 2020) ?all)"
    unfolding f by simp
  then have "\<lparr>year = 2020, TempF = Fin 50, source = Berkeley_Earth\<rparr> \<in> set ?all"
    by (simp only: set_filter mem_Collect_eq)
  then have mem: "2020 \<in> year ` set ?all"
    by (rule image_eqI [rotated]) simp
  have m: "map_of (groupby_mean ?all) 2020 = Some (Some (Fin 59))"
    unfolding map_of_groupby_mean using mem
    by (simp only: f if_True) (simp add: mean_def fsum_def)
  have "(2020, Some (Fin 59)) \<in> set (groupby_mean ?all)"
    using m by (rule map_of_SomeD)
  then show ?thesis
    using l f m by simp
qed

theorem celsius_scenario_2020_witness:
  "load_temperature_data ex_library ex_gia ex_berk ex_josep =
     Inr (ex_temps_all, ex_temps_annual) \<and>
   map TempF (filter (\<lambda>r. year r = 2020) ex_temps_all) = [Fin 50, Fin 68] \<and>
   map_of ex_temps_annual 2020 = Some (Some (Fin 59))"
proof -
  let ?d = "\<lambda>c. case c of NaN \<Rightarrow> None | _ \<Rightarrow> iso_date c"
  have h1: "to_datetime ex_library (map dt ex_berk) = Inr ?d"
    and h6: "to_datetime ex_library (map EventDate ex_josep) = Inr ?d"
    by (rule ex_to_datetime)+
  have h2: "map_option ts_year (?d (Str ''2020-03-01'')) = Some 2020"
    and h3: "map_option ts_year (?d (Str ''2020-07-01'')) = Some 2020"
    by (simp_all add: ex_iso_dates)
  have h4: "ex_berk = \<lparr>dt = Str ''2020-03-01'', LandAndOceanAverageTemperature = Num (Fin 10)\<rparr>
              # \<lparr>dt = Str ''2020-07-01'', LandAndOceanAverageTemperature = Num (Fin 20)\<rparr> # []"
    by (simp add: ex_berk_def)
  have h5: "\<forall>r \<in> set []. \<not> is_Str (LandAndOceanAverageTemperature r) \<and>
           (\<forall>t. ?d (dt r) = Some t \<longrightarrow> ts_year t \<noteq> 2020)"
    by simp
  have h7: "\<forall>r \<in> set ex_josep. \<forall>t. ?d (EventDate r) = Some t \<longrightarrow> ts_year t \<noteq> 2020"
    by (auto simp: ex_josep_def ex_iso_dates)
  have h8: "\<forall>r \<in> set ex_gia. \<not> is_Str (Year r) \<and> Year r \<noteq> Num PInf \<and> Year r \<noteq> Num NInf \<and>
           \<not> is_Str (Average_Fahrenheit_Temperature r)"
    by (simp add: ex_gia_def)
  have h9: "\<forall>r \<in> set ex_gia. \<forall>y. Year r = Num (Fin y) \<longrightarrow> astype_int y \<noteq> 2020"
    by (simp add: ex_gia_def astype_int_def trunc_def in_int64_def)
  from celsius_scenario_2020 [OF h1 h2 h3 h4 h5 h6 h7 h8 h9]
  show ?thesis by (auto simp: ex_load_temperature_data)
qed


text \<open>
  C5. A temperature of the Berkeley frame that is not a number is not turned into a
  missing value: line 68 raises.
\<close>

theorem berkeley_text_raises:
  "load_temperature_data ex_library ex_gia
     [\<lparr>dt = Str ''2020-03-01'', LandAndOceanAverageTemperature = Str ''warm''\<rparr>] ex_josep
     = Inl TypeError"
  by (simp add: load_temperature_data_def temps_berk_std_def ex_to_datetime)

text \<open>
  C5, amended. When \<^verbatim>\<open>pd.to_datetime\<close> raises on none of the four date columns, the
  Berkeley temperature column holds no text, and Gia's two columns hold no text and no
  infinite year, the loaders and \<open>build_merged_dataset\<close> return. The rows with a date
  that does not parse, a blank year or temperature, a temperature of the Josep frame that
  \<^verbatim>\<open>pd.to_numeric\<close> does not read as a number, or a blank category are in no output:
  the cleaned tables hold one row for each of the other rows and nothing else, in their
  order, and the years of the aggregates and of the merged table are the years of those
  rows.
\<close>

theorem malformed_rows_dropped:
  assumes "to_datetime L (map dt berk) = Inr db"
    and "to_datetime L (map EventDate josep) = Inr dj"
    and "to_datetime L (map b_EventDate baris) = Inr da"
    and "to_datetime L (map Date shrey) = Inr ds"
    and "\<not> list_ex is_Str (map LandAndOceanAverageTemperature berk)"
    and "\<forall>r \<in> set gia. \<not> is_Str (Year r) \<and> Year r \<noteq> Num PInf \<and> Year r \<noteq> Num NInf \<and>
           \<not> is_Str (Average_Fahrenheit_Temperature r)"
  shows "\<exists>temps_all temps_annual disasters_all disasters_per_year merged.
     load_temperature_data L gia berk josep = Inr (temps_all, temps_annual) \<and>
     load_disaster_data L baris shrey = Inr (disasters_all, disasters_per_year) \<and>
     build_merged_dataset L gia berk josep baris shrey =
       Inr (temps_annual, disasters_per_year, merged) \<and>
     temps_all = List.map_filter gia_keep gia @ List.map_filter (berk_keep db) berk
       @ List.map_filter (josep_keep L dj) josep \<and>
     length temps_all = length (filter gia_ok gia) + length (filter (berk_ok db) berk)
       + length (filter (josep_ok L dj) josep) \<and>
     disasters_all =
       List.map_filter (baris_keep da) baris @ List.map_filter (shrey_keep ds) shrey \<and>
     length disasters_all =
       length (filter (baris_ok da) baris) + length (filter (shrey_ok ds) shrey) \<and>
     fst ` set temps_annual = year ` set temps_all \<and>
     fst ` set disasters_per_year = d_year ` set disasters_all \<and>
     m_year ` set merged = year ` set temps_all \<union> d_year ` set disasters_all"
proof -
  let ?T = "List.map_filter gia_keep gia @ List.map_filter (berk_keep db) berk
       @ List.map_filter (josep_keep L dj) josep"
  let ?D = "List.map_filter (baris_keep da) baris @ List.map_filter (shrey_keep ds) shrey"
  have l: "load_temperature_data L gia berk josep = Inr (?T, groupby_mean ?T)"
    by (rule load_temperature_data_floats [OF assms(1,2,5,6)])
  have d: "load_disaster_data L baris shrey = Inr (?D, groupby_size ?D)"
    by (rule load_disaster_data_dates [OF assms(3,4)])
  have b: "build_merged_dataset L gia berk josep baris shrey =
      Inr (groupby_mean ?T, groupby_size ?D, merge_annual (groupby_mean ?T) (groupby_size ?D))"
    by (simp add: build_merged_dataset_def l d)
  have g: "\<forall>r \<in> set gia. gia_ok r \<longleftrightarrow> gia_keep r \<noteq> None"
    using assms(6) gia_keep_ok by blast
  have nT: "length ?T = length (filter gia_ok gia) + length (filter (berk_ok db) berk)
       + length (filter (josep_ok L dj) josep)"
    using map_filter_kept [OF g]
      map_filter_kept [of berk "berk_ok db" "berk_keep db"]
      map_filter_kept [of josep "josep_ok L dj" "josep_keep L dj"]
    by (simp add: berk_keep_ok josep_keep_ok)
  have nD: "length ?D = length (filter (baris_ok da) baris) + length (filter (shrey_ok ds) shrey)"
    using map_filter_kept [of baris "baris_ok da" "baris_keep da"]
      map_filter_kept [of shrey "shrey_ok ds" "shrey_keep ds"]
    by (simp add: baris_keep_ok shrey_keep_ok)
  have "distinct (map fst (groupby_size ?D))"
    unfolding fst_groupby_size by (rule group_keys_distinct)
  then have m: "m_year ` set (merge_annual (groupby_mean ?T) (groupby_size ?D)) =
      year ` set ?T \<union> d_year ` set ?D"
    by (simp only: years_merge_annual years_groupby_mean years_groupby_size)
  show ?thesis
    using l d b nT nD m years_groupby_mean [of ?T] years_groupby_size [of ?D] by blast
qed

theorem malformed_rows_dropped_witness:
  "load_temperature_data ex_library ex_gia ex_berk ex_josep =
     Inr (ex_temps_all, ex_temps_annual) \<and>
   length ex_temps_all = 4 \<and>
   length (filter gia_ok ex_gia) = 1 \<and>
   length (filter (berk_ok (\<lambda>c. case c of NaN \<Rightarrow> None | _ \<Rightarrow> iso_date c)) ex_berk) = 2 \<and>
   length (filter (josep_ok ex_library (\<lambda>c. case c of NaN \<Rightarrow> None | _ \<Rightarrow> iso_date c))
             ex_josep) = 1 \<and>
   load_disaster_data ex_library ex_baris ex_shrey = Inr (ex_disasters_all, [(2021, 3)]) \<and>
   build_merged_dataset ex_library ex_gia ex_berk ex_josep ex_baris ex_shrey =
     Inr (ex_temps_annual, [(2021, 3)], ex_merged) \<and>
   m_year ` set ex_merged = year ` set ex_temps_all \<union> d_year ` set ex_disasters_all"
proof -
  let ?d = "\<lambda>c. case c of NaN \<Rightarrow> None | _ \<Rightarrow> iso_date c"
  have h1: "to_datetime ex_library (map dt ex_berk) = Inr ?d"
    and h2: "to_datetime ex_library (map EventDate ex_josep) = Inr ?d"
    and h3: "to_datetime ex_library (map b_EventDate ex_baris) = Inr ?d"
    and h4: "to_datetime ex_library (map Date ex_shrey) = Inr ?d"
    by (rule ex_to_datetime)+
  have h5: "\<not> list_ex is_Str (map LandAndOceanAverageTemperature ex_berk)"
    by (simp add: ex_berk_def)
  have h6: "\<forall>r \<in> set ex_gia. \<not> is_Str (Year r) \<and> Year r \<noteq> Num PInf \<and> Year r \<noteq> Num NInf \<and>
           \<not> is_Str (Average_Fahrenheit_Temperature r)"
    by (simp add: ex_gia_def)
  have n: "length (filter gia_ok ex_gia) = 1"
      "length (filter (berk_ok ?d) ex_berk) = 2"
      "length (filter (josep_ok ex_library ?d) ex_josep) = 1"
    by (simp_all add: ex_gia_def ex_berk_def ex_josep_def gia_ok_def berk_ok_def josep_ok_def
        ex_iso_dates ex_numbers)
  from malformed_rows_dropped [OF h1 h2 h3 h4 h5 h6] n
  show ?thesis
    by (auto simp: ex_load_temperature_data ex_load_disaster_data ex_build_merged_dataset)
qed

text \<open>
  C9. A year is never checked against a range: a Gia row of the year 850, and a Berkeley
  row dated 0850-06-01 under a library that reads this date, are rows of the cleaned
  table and of the annual aggregate, and 850 is not in the range 1000-9999.
\<close>

theorem year_unchecked:
  "load_temperature_data ex_library
     [\<lparr>Year = Num (Fin 850), Average_Fahrenheit_Temperature = Num (Fin 57)\<rparr>] [] [] =
     Inr ([\<lparr>year = 850, TempF = Fin 57, source = Gia_Bach_Nguyen\<rparr>], [(850, Some (Fin 57))]) \<and>
   load_temperature_data ex_library []
     [\<lparr>dt = Str ''0850-06-01'', LandAndOceanAverageTemperature = Num (Fin 10)\<rparr>] [] =
     Inr ([\<lparr>year = 850, TempF = Fin 50, source = Berkeley_Earth\<rparr>], [(850, Some (Fin 50))]) \<and>
   \<not> four_digit 850"
proof -
  have "iso_date (Str ''0850-06-01'') = Some \<lparr>ts_year = 850, ts_month = 6, ts_day = 1\<rparr>"
    by (simp add: iso_date_def digit_val_def days_in_month_def)
  then show ?thesis
    by (simp add: load_temperature_data_def temps_berk_std_def temps_gia_std_def
        temps_josep_std_def berk_raw_def ex_to_datetime dropna_temps_def cast_row_def
        List.map_filter_def dt_year_def float_cell_def astype_int_def trunc_def in_int64_def
        sort_values_year_def groupby_mean_def group_keys_def mean_def fsum_def four_digit_def)
qed

text \<open>
  C9, amended. When the \<^verbatim>\<open>Year\<close> of every Gia row, cast to an integer, and the year
  of every date of the other four frames that parses are in the range 1000-9999, so is
  every year of the cleaned tables, of the two aggregates and of the merged table.
\<close>

theorem years_four_digit:
  assumes "\<forall>r \<in> set gia. \<forall>object k. year_cast L object (Year r) = Inr k \<longrightarrow> four_digit k"
    and "\<forall>d. to_datetime L (map dt berk) = Inr d \<longrightarrow>
           (\<forall>r \<in> set berk. \<forall>ts. d (dt r) = Some ts \<longrightarrow> four_digit (ts_year ts))"
    and "\<forall>d. to_datetime L (map EventDate josep) = Inr d \<longrightarrow>
           (\<forall>r \<in> set josep. \<forall>ts. d (EventDate r) = Some ts \<longrightarrow> four_digit (ts_year ts))"
    and "\<forall>d. to_datetime L (map b_EventDate baris) = Inr d \<longrightarrow>
           (\<forall>r \<in> set baris. \<forall>ts. d (b_EventDate r) = Some ts \<longrightarrow> four_digit (ts_year ts))"
    and "\<forall>d. to_datetime L (map Date shrey) = Inr d \<longrightarrow>
           (\<forall>r \<in> set shrey. \<forall>ts. d (Date r) = Some ts \<longrightarrow> four_digit (ts_year ts))"
  shows "(\<forall>temps_all temps_annual.
            load_temperature_data L gia berk josep = Inr (temps_all, temps_annual) \<longrightarrow>
            (\<forall>r \<in> set temps_all. four_digit (year r)) \<and>
            (\<forall>y \<in> fst ` set temps_annual. four_digit y)) \<and>
         (\<forall>disasters_all disasters_per_year.
            load_disaster_data L baris shrey = Inr (disasters_all, disasters_per_year) \<longrightarrow>
            (\<forall>e \<in> set disasters_all. four_digit (d_year e)) \<and>
            (\<forall>y \<in> fst ` set disasters_per_year. four_digit y)) \<and>
         (\<forall>temps_annual disasters_per_year merged.
            build_merged_dataset L gia berk josep baris shrey =
              Inr (temps_annual, disasters_per_year, merged) \<longrightarrow>
            (\<forall>r \<in> set merged. four_digit (m_year r)))"
proof -
  have t: "(\<forall>r \<in> set temps_all. four_digit (year r)) \<and>
           (\<forall>y \<in> fst ` set temps_annual. four_digit y)"
    if l: "load_temperature_data L gia berk josep = Inr (temps_all, temps_annual)"
    for temps_all temps_annual
  proof -
    have a: "four_digit (year x)" if x: "x \<in> set temps_all" for x
    proof -
      from temps_all_years_from [OF l x] obtain db dj object r where
        db: "to_datetime L (map dt berk) = Inr db"
        and dj: "to_datetime L (map EventDate josep) = Inr dj"
        and r: "r \<in> set (temps_gia_std gia @ map (berk_raw db) berk @ map (josep_raw L dj) josep)"
        and c: "year_cast L object (raw_year r) = Inr (year x)"
        by blast
      from r consider
        (gia) g where "g \<in> set gia" "raw_year r = Year g"
      | (berk) b where "b \<in> set berk" "raw_year r = float_cell (dt_year (db (dt b)))"
      | (josep) j where "j \<in> set josep" "raw_year r = float_cell (dt_year (dj (EventDate j)))"
        by (auto simp: temps_gia_std_def berk_raw_def josep_raw_def)
      then show ?thesis
      proof cases
        case gia
        then show ?thesis using assms(1) c by auto
      next
        case berk
        with c year_cast_date obtain ts where
          ts: "db (dt b) = Some ts" "in_int64 (ts_year ts) \<longrightarrow> year x = ts_year ts"
          by metis
        from assms(2) db berk(1) ts(1) have "four_digit (ts_year ts)" by blast
        with ts(2) show ?thesis by (simp add: four_digit_in_int64)
      next
        case josep
        with c year_cast_date obtain ts where
          ts: "dj (EventDate j) = Some ts" "in_int64 (ts_year ts) \<longrightarrow> year x = ts_year ts"
          by metis
        from assms(3) dj josep(1) ts(1) have "four_digit (ts_year ts)" by blast
        with ts(2) show ?thesis by (simp add: four_digit_in_int64)
      qed
    qed
    have "temps_annual = groupby_mean temps_all"
      by (rule load_temperature_data_Inr [OF l])
    then show ?thesis using a by (auto simp: years_groupby_mean)
  qed
  have d: "(\<forall>e \<in> set disasters_all. four_digit (d_year e)) \<and>
           (\<forall>y \<in> fst ` set disasters_per_year. four_digit y)"
    if l: "load_disaster_data L baris shrey = Inr (disasters_all, disasters_per_year)"
    for disasters_all disasters_per_year
  proof -
    from load_disaster_data_cases [OF l] obtain da ds where
      da: "to_datetime L (map b_EventDate baris) = Inr da"
      and ds: "to_datetime L (map Date shrey) = Inr ds"
      and al: "disasters_all =
             List.map_filter (baris_keep da) baris @ List.map_filter (shrey_keep ds) shrey"
      by blast
    have a: "four_digit (d_year e)" if e: "e \<in> set disasters_all" for e
    proof -
      from e al consider
        (baris) r where "r \<in> set baris" "baris_keep da r = Some e"
      | (shrey) r where "r \<in> set shrey" "shrey_keep ds r = Some e"
        by (auto simp: map_filter_set)
      then show ?thesis
      proof cases
        case baris
        then obtain ts where ts: "da (b_EventDate r) = Some ts"
          "d_year e = astype_int (real_of_int (ts_year ts))"
          by (auto simp: baris_keep_def split: option.splits)
        from assms(4) da baris(1) ts(1) have "four_digit (ts_year ts)" by blast
        then show ?thesis
          using ts(2) by (simp add: astype_int_of_int four_digit_in_int64)
      next
        case shrey
        then obtain ts where ts: "ds (Date r) = Some ts"
          "d_year e = astype_int (real_of_int (ts_year ts))"
          by (auto simp: shrey_keep_def split: option.splits)
        from assms(5) ds shrey(1) ts(1) have "four_digit (ts_year ts)" by blast
        then show ?thesis
          using ts(2) by (simp add: astype_int_of_int four_digit_in_int64)
      qed
    qed
    have "disasters_per_year = groupby_size disasters_all"
      by (rule load_disaster_data_Inr [OF l])
    then show ?thesis using a by (auto simp: years_groupby_size)
  qed
  have m: "\<forall>r \<in> set merged. four_digit (m_year r)"
    if b: "build_merged_dataset L gia berk josep baris shrey =
              Inr (temps_annual, disasters_per_year, merged)"
    for temps_annual disasters_per_year merged
  proof -
    from build_merged_dataset_Inr [OF b] obtain temps_all disasters_all where
      mg: "merged = merge_annual temps_annual disasters_per_year"
      and dd: "distinct (map fst disasters_per_year)"
      and l: "load_temperature_data L gia berk josep = Inr (temps_all, temps_annual)"
      and l': "load_disaster_data L baris shrey = Inr (disasters_all, disasters_per_year)"
      by blast
    have eq: "m_year ` set merged = fst ` set temps_annual \<union> fst ` set disasters_per_year"
      unfolding mg using dd by (rule years_merge_annual)
    show ?thesis
    proof
      fix r
      assume "r \<in> set merged"
      then have "m_year r \<in> m_year ` set merged" by (rule imageI)
      then have "m_year r \<in> fst ` set temps_annual \<union> fst ` set disasters_per_year"
        unfolding eq .
      then show "four_digit (m_year r)"
        using t [OF l] d [OF l'] by blast
    qed
  qed
  show ?thesis using t d m by blast
qed

theorem years_four_digit_witness:
  "list_all (\<lambda>r. four_digit (year r)) ex_temps_all \<and>
   list_all (\<lambda>e. four_digit (d_year e)) ex_disasters_all \<and>
   list_all (\<lambda>r. four_digit (m_year r)) ex_merged"
proof -
  let ?d = "\<lambda>c. case c of NaN \<Rightarrow> None | _ \<Rightarrow> iso_date c"
  have h1: "\<forall>r \<in> set ex_gia. \<forall>object k.
      year_cast ex_library object (Year r) = Inr k \<longrightarrow> four_digit k"
    by (simp add: ex_gia_def astype_int_def trunc_def in_int64_def four_digit_def)
  have h2: "\<forall>d. to_datetime ex_library (map dt ex_berk) = Inr d \<longrightarrow>
           (\<forall>r \<in> set ex_berk. \<forall>ts. d (dt r) = Some ts \<longrightarrow> four_digit (ts_year ts))"
    by (auto simp: ex_to_datetime ex_berk_def ex_iso_dates four_digit_def)
  have h3: "\<forall>d. to_datetime ex_library (map EventDate ex_josep) = Inr d \<longrightarrow>
           (\<forall>r \<in> set ex_josep. \<forall>ts. d (EventDate r) = Some ts \<longrightarrow> four_digit (ts_year ts))"
    by (auto simp: ex_to_datetime ex_josep_def ex_iso_dates four_digit_def)
  have h4: "\<forall>d. to_datetime ex_library (map b_EventDate ex_baris) = Inr d \<longrightarrow>
           (\<forall>r \<in> set ex_baris. \<forall>ts. d (b_EventDate r) = Some ts \<longrightarrow> four_digit (ts_year ts))"
    by (auto simp: ex_to_datetime ex_baris_def ex_iso_dates four_digit_def)
  have h5: "\<forall>d. to_datetime ex_library (map Date ex_shrey) = Inr d \<longrightarrow>
           (\<forall>r \<in> set ex_shrey. \<forall>ts. d (Date r) = Some ts \<longrightarrow> four_digit (ts_year ts))"
    by (auto simp: ex_to_datetime ex_shrey_def ex_iso_dates four_digit_def)
  note T = years_four_digit [OF h1 h2 h3 h4 h5]
  from T [THEN conjunct1, rule_format, OF ex_load_temperature_data]
  have a: "\<forall>r \<in> set ex_temps_all. four_digit (year r)" by (rule conjunct1)
  from T [THEN conjunct2, THEN conjunct1, rule_format, OF ex_load_disaster_data]
  have b: "\<forall>e \<in> set ex_disasters_all. four_digit (d_year e)" by (rule conjunct1)
  from T [THEN conjunct2, THEN conjunct2, rule_format, OF ex_build_merged_dataset]
  have c: "\<forall>r \<in> set ex_merged. four_digit (m_year r)" by blast
  show ?thesis
    unfolding list_all_iff using a b c by (intro conjI)
qed


end
